theory Spec2Isabelle
  imports Complex_Main "HOL-Library.Product_Lexorder"
begin

section \<open>Python values: floats and exceptions\<close>

text \<open>
  A Python float is either the not-a-number sentinel or a number. Numbers are idealised
  as reals: the model keeps the control flow, the sentinel and the exceptions of the
  source, and leaves rounding error and the infinities of the machine format out.
\<close>

datatype pyfloat = NaN | Fin real

datatype exn =
    ValueError string
  | ZeroDivisionError
  | AttributeError
  | KeyError string
  | IndexError string
  | UnboundLocalError string
  | OtherException string

definition bind_exn :: "exn + 'a \<Rightarrow> ('a \<Rightarrow> exn + 'b) \<Rightarrow> exn + 'b" where
  "bind_exn m f = (case m of Inl e \<Rightarrow> Inl e | Inr v \<Rightarrow> f v)"

text \<open>\<open>try: body except classes: handler\<close>, the handler assigning a constant.\<close>

definition try_except :: "(exn \<Rightarrow> bool) \<Rightarrow> exn + 'a \<Rightarrow> 'a \<Rightarrow> exn + 'a" where
  "try_except caught body handler =
     (case body of Inl e \<Rightarrow> (if caught e then Inr handler else Inl e) | Inr v \<Rightarrow> Inr v)"

text \<open>\<open>except (ValueError, ZeroDivisionError, AttributeError)\<close>\<close>

fun is_value_zero_attr :: "exn \<Rightarrow> bool" where
  "is_value_zero_attr (ValueError _) = True"
| "is_value_zero_attr ZeroDivisionError = True"
| "is_value_zero_attr AttributeError = True"
| "is_value_zero_attr _ = False"

text \<open>\<open>except (ValueError, ZeroDivisionError)\<close>\<close>

fun is_value_zero :: "exn \<Rightarrow> bool" where
  "is_value_zero (ValueError _) = True"
| "is_value_zero ZeroDivisionError = True"
| "is_value_zero _ = False"

fun py_sub :: "pyfloat \<Rightarrow> pyfloat \<Rightarrow> pyfloat" where
  "py_sub (Fin a) (Fin b) = Fin (a - b)"
| "py_sub _ _ = NaN"

text \<open>Python's \<open>/\<close> on floats raises on a zero divisor before looking at the dividend.\<close>

fun py_truediv :: "pyfloat \<Rightarrow> pyfloat \<Rightarrow> exn + pyfloat" where
  "py_truediv a (Fin b) =
     (if b = 0 then Inl ZeroDivisionError
      else (case a of Fin x \<Rightarrow> Inr (Fin (x / b)) | NaN \<Rightarrow> Inr NaN))"
| "py_truediv a NaN = Inr NaN"

fun py_eq :: "pyfloat \<Rightarrow> pyfloat \<Rightarrow> bool" where
  "py_eq (Fin a) (Fin b) = (a = b)"
| "py_eq _ _ = False"

fun py_gt :: "pyfloat \<Rightarrow> pyfloat \<Rightarrow> bool" where
  "py_gt (Fin a) (Fin b) = (b < a)"
| "py_gt _ _ = False"

fun py_lt :: "pyfloat \<Rightarrow> pyfloat \<Rightarrow> bool" where
  "py_lt (Fin a) (Fin b) = (a < b)"
| "py_lt _ _ = False"

text \<open>\<open>round(x, ndigits)\<close>: to the nearest multiple of \<open>10 ^ -ndigits\<close>, ties to even.\<close>

definition round_half_even :: "real \<Rightarrow> int" where
  "round_half_even x =
     (let f = \<lfloor>x\<rfloor>; d = x - of_int f
      in if d < 1 / 2 then f else if 1 / 2 < d then f + 1 else if even f then f else f + 1)"

fun py_round :: "pyfloat \<Rightarrow> nat \<Rightarrow> pyfloat" where
  "py_round (Fin x) ndigits = Fin (of_int (round_half_even (x * 10 ^ ndigits)) / 10 ^ ndigits)"
| "py_round NaN ndigits = NaN"

section \<open>Fitted distributions and the return metrics\<close>

text \<open>
  A frozen scipy distribution, as far as the source uses it: its \<open>ppf\<close> and \<open>cdf\<close>
  methods, each of which may raise. A missing fit is \<open>None\<close>.
\<close>

record fitted =
  ppf :: "pyfloat \<Rightarrow> exn + pyfloat"
  cdf :: "pyfloat \<Rightarrow> exn + pyfloat"

definition call_ppf :: "fitted option \<Rightarrow> pyfloat \<Rightarrow> exn + pyfloat" where
  "call_ppf fitted_distr p =
     (case fitted_distr of None \<Rightarrow> Inl AttributeError | Some d \<Rightarrow> ppf d p)"

definition call_cdf :: "fitted option \<Rightarrow> pyfloat \<Rightarrow> exn + pyfloat" where
  "call_cdf fitted_distr x =
     (case fitted_distr of None \<Rightarrow> Inl AttributeError | Some d \<Rightarrow> cdf d x)"

definition data_variables :: "string list" where
  "data_variables = [''return_value'', ''return_prob'', ''return_period'']"

definition calculate_return :: "fitted option \<Rightarrow> string \<Rightarrow> pyfloat \<Rightarrow> exn + pyfloat" where
  "calculate_return fitted_distr data_variable arg_value =
     (if data_variable = ''return_value'' then
        try_except is_value_zero_attr
          (bind_exn (py_truediv (Fin 1) arg_value) (\<lambda>q.
             let return_event = py_sub (Fin 1) q in
             bind_exn (call_ppf fitted_distr return_event) (\<lambda>return_value.
               Inr (py_round return_value 5))))
          NaN
      else if data_variable = ''return_prob'' then
        try_except is_value_zero_attr
          (bind_exn (call_cdf fitted_distr arg_value) (\<lambda>c. Inr (py_sub (Fin 1) c)))
          NaN
      else if data_variable = ''return_period'' then
        try_except is_value_zero_attr
          (bind_exn (call_cdf fitted_distr arg_value) (\<lambda>return_prob.
             if py_eq return_prob (Fin 1) then Inr NaN
             else bind_exn (py_truediv (Fin (- 1)) (py_sub return_prob (Fin 1)))
                    (\<lambda>return_period. Inr (py_round return_period 3))))
          NaN
      else Inl (UnboundLocalError ''result''))"

section \<open>The distribution registry and the fitter\<close>

text \<open>
  The source works against three libraries that are not part of the repository:
  lmoments3 (the L-moment estimators), scipy.stats (the frozen distributions and the
  KS test) and xarray/numpy. What the source calls is taken as a parameter, each call
  free to raise; the registry keys are datatypes. \<open>point_series\<close> gives the 1-D series
  that \<open>xr.apply_ufunc\<close> hands to the function applied at each point: with
  \<open>multiple_points\<close> the groups of the array stacked over \<open>y\<close> and \<open>x\<close> (the stacking
  raises on an array without these dimensions), otherwise the array itself.
\<close>

datatype lmom_distr = Ldistr_gev | Ldistr_gum | Ldistr_wei | Ldistr_pe3 | Ldistr_gpa

datatype scipy_distr =
  Stats_genextreme | Stats_gumbel_r | Stats_weibull_min | Stats_pearson3 | Stats_genpareto

type_synonym sample = "pyfloat list"

text \<open>A time stamp: year, month, day, hour.\<close>

type_synonym datetime = "nat \<times> nat \<times> nat \<times> nat"

type_synonym params = "(string \<times> pyfloat) list"

text \<open>
  A DataArray, as far as the statistics need it: its name, its metadata and one value
  per grid point. For an input series the value at a point is the point's 1-D series
  along \<open>time\<close>.
\<close>

record 'v data_array =
  da_name :: string
  da_attrs :: "string \<rightharpoonup> string"
  da_values :: "'v list"

record library =
  lmom_fit :: "lmom_distr \<Rightarrow> sample \<Rightarrow> exn + params"
  frozen :: "scipy_distr \<Rightarrow> params \<Rightarrow> exn + fitted"
  kstest :: "sample \<Rightarrow> string \<Rightarrow> pyfloat list \<Rightarrow> exn + pyfloat \<times> pyfloat"
  py_str :: "pyfloat \<Rightarrow> string"
  resample_max :: "(datetime \<times> pyfloat) list \<Rightarrow> (datetime \<times> pyfloat) list"
  point_series :: "bool \<Rightarrow> sample data_array \<Rightarrow> exn + sample list"

fun join :: "string \<Rightarrow> string list \<Rightarrow> string" where
  "join sep [] = []"
| "join sep [x] = x"
| "join sep (x # y # ys) = x @ sep @ join sep (y # ys)"

text \<open>\<open>'%s' % xs\<close> for a list of strings: each item in single quotes.\<close>

definition py_repr_list :: "string list \<Rightarrow> string" where
  "py_repr_list xs = ''['' @ join '', '' (map (\<lambda>x. [CHR 0x27] @ x @ [CHR 0x27]) xs) @ '']''"

definition distrs :: "string list" where
  "distrs = [''gev'', ''gumbel'', ''weibull'', ''pearson3'', ''genpareto'']"

definition invalid_distr :: exn where
  "invalid_distr =
     ValueError (''invalid distr type. expected one of the following: '' @ py_repr_list distrs)"

definition get_lmom_distr :: "string \<Rightarrow> exn + lmom_distr" where
  "get_lmom_distr distr =
     (if distr \<notin> set distrs then Inl invalid_distr
      else if distr = ''gev'' then Inr Ldistr_gev
      else if distr = ''gumbel'' then Inr Ldistr_gum
      else if distr = ''weibull'' then Inr Ldistr_wei
      else if distr = ''pearson3'' then Inr Ldistr_pe3
      else if distr = ''genpareto'' then Inr Ldistr_gpa
      else Inl (UnboundLocalError ''lmom_distr''))"

text \<open>
  The two lines that every branch of \<open>get_fitted_distr\<close> repeats: the L-moment fit of the
  sample, then the branch's scipy family frozen at the fitted parameters.
\<close>

definition fit_and_freeze ::
  "library \<Rightarrow> sample \<Rightarrow> lmom_distr \<Rightarrow> scipy_distr \<Rightarrow> exn + params \<times> fitted" where
  "fit_and_freeze L ams lmom_distr family =
     bind_exn (lmom_fit L lmom_distr ams) (\<lambda>lmoments.
       bind_exn (frozen L family lmoments) (\<lambda>fitted_distr. Inr (lmoments, fitted_distr)))"

definition get_fitted_distr ::
  "library \<Rightarrow> sample \<Rightarrow> string \<Rightarrow> lmom_distr \<Rightarrow> exn + params \<times> fitted" where
  "get_fitted_distr L ams distr lmom_distr =
     (if distr = ''gev'' then fit_and_freeze L ams lmom_distr Stats_genextreme
      else if distr = ''gumbel'' then fit_and_freeze L ams lmom_distr Stats_gumbel_r
      else if distr = ''weibull'' then fit_and_freeze L ams lmom_distr Stats_weibull_min
      else if distr = ''pearson3'' then fit_and_freeze L ams lmom_distr Stats_pearson3
      else if distr = ''genpareto'' then fit_and_freeze L ams lmom_distr Stats_genpareto
      else Inl (UnboundLocalError ''lmoments''))"

section \<open>Labeled arrays and the vectorization layer\<close>

text \<open>
  A Dataset: its data variables and its own metadata. Unstacking \<open>allpoints\<close> only
  relabels the points.
\<close>

record 'v dataset =
  ds_vars :: "'v data_array list"
  ds_attrs :: "string \<rightharpoonup> string"

text \<open>\<open>xr.apply_ufunc\<close> over the points, in order; the first exception ends the call.\<close>

fun apply_ufunc :: "('a \<Rightarrow> exn + 'b) \<Rightarrow> 'a list \<Rightarrow> exn + 'b list" where
  "apply_ufunc f [] = Inr []"
| "apply_ufunc f (x # xs) =
     bind_exn (f x) (\<lambda>y. bind_exn (apply_ufunc f xs) (\<lambda>ys. Inr (y # ys)))"

definition get_lmoments ::
  "library \<Rightarrow> sample data_array \<Rightarrow> string \<Rightarrow> bool \<Rightarrow> exn + params dataset" where
  "get_lmoments L ams distr multiple_points =
     bind_exn (get_lmom_distr distr) (\<lambda>lmom_distr.
       let ams_attributes = da_attrs ams in
       bind_exn (point_series L multiple_points ams) (\<lambda>points.
         bind_exn (apply_ufunc (lmom_fit L lmom_distr) points) (\<lambda>lmoments.
           Inr \<lparr>ds_vars =
                  [\<lparr>da_name = ''lmoments'', da_attrs = Map.empty, da_values = lmoments\<rparr>],
                ds_attrs = ams_attributes(''distribution'' \<mapsto> distr)\<rparr>)))"

section \<open>The goodness-of-fit test\<close>

text \<open>\<open>lmoments[key]\<close> for each key in turn; a missing key raises.\<close>

fun getitems :: "params \<Rightarrow> string list \<Rightarrow> exn + pyfloat list" where
  "getitems lmoments [] = Inr []"
| "getitems lmoments (k # ks) =
     (case map_of lmoments k of
        None \<Rightarrow> Inl (KeyError k)
      | Some v \<Rightarrow> bind_exn (getitems lmoments ks) (\<lambda>vs. Inr (v # vs)))"

text \<open>
  The \<open>try\<close> block that every branch of \<open>ks_stat\<close> repeats, with the branch's scipy name
  and parameter keys.
\<close>

definition ks_try ::
  "library \<Rightarrow> sample \<Rightarrow> string \<Rightarrow> lmom_distr \<Rightarrow> string \<Rightarrow> string list \<Rightarrow>
   exn + pyfloat \<times> pyfloat" where
  "ks_try L ams distr lmom_distr scipy_name keys =
     try_except is_value_zero
       (bind_exn (get_fitted_distr L ams distr lmom_distr) (\<lambda>(lmoments, fitted_distr).
          bind_exn (getitems lmoments keys) (\<lambda>args.
            bind_exn (kstest L ams scipy_name args) (\<lambda>ks. Inr (fst ks, snd ks)))))
       (NaN, NaN)"

definition ks_stat ::
  "library \<Rightarrow> string \<Rightarrow> lmom_distr \<Rightarrow> sample \<Rightarrow> exn + pyfloat \<times> pyfloat" where
  "ks_stat L distr lmom_distr ams =
     (if distr = ''gev'' then
        ks_try L ams distr lmom_distr ''genextreme'' [''c'', ''loc'', ''scale'']
      else if distr = ''gumbel'' then
        ks_try L ams distr lmom_distr ''gumbel_r'' [''loc'', ''scale'']
      else if distr = ''weibull'' then
        ks_try L ams distr lmom_distr ''weibull_min'' [''c'', ''loc'', ''scale'']
      else if distr = ''pearson3'' then
        ks_try L ams distr lmom_distr ''pearson3'' [''skew'', ''loc'', ''scale'']
      else if distr = ''genpareto'' then
        ks_try L ams distr lmom_distr ''genpareto'' [''c'', ''loc'', ''scale'']
      else Inl (UnboundLocalError ''d_statistic''))"

definition get_ks_stat ::
  "library \<Rightarrow> sample data_array \<Rightarrow> string \<Rightarrow> bool \<Rightarrow> exn + pyfloat dataset" where
  "get_ks_stat L ams distr multiple_points =
     bind_exn (get_lmom_distr distr) (\<lambda>lmom_distr.
       let ams_attributes = da_attrs ams in
       bind_exn (point_series L multiple_points ams) (\<lambda>points.
         bind_exn (apply_ufunc (ks_stat L distr lmom_distr) points) (\<lambda>stats.
           Inr \<lparr>ds_vars =
                  [\<lparr>da_name = ''d_statistic'', da_attrs = [''stat test'' \<mapsto> ''KS test''],
                    da_values = map fst stats\<rparr>,
                   \<lparr>da_name = ''p_value'', da_attrs = [''stat test'' \<mapsto> ''KS test''],
                    da_values = map snd stats\<rparr>],
                ds_attrs = ams_attributes(''distribution'' \<mapsto> distr)\<rparr>)))"

section \<open>The bootstrap and the confidence interval\<close>

text \<open>
  The state of numpy's global random generator: an unending sequence of raw draws and
  the position reached in it. \<open>np.random.choice(a, size, replace=True)\<close> reads \<open>size\<close>
  raw draws, each picking one index of \<open>a\<close>.
\<close>

datatype rng = Rng "nat \<Rightarrow> nat" nat

fun random_choice :: "rng \<Rightarrow> 'a list \<Rightarrow> nat \<Rightarrow> (exn + 'a list) \<times> rng" where
  "random_choice (Rng raw pos) a sz =
     (if a = [] \<and> 0 < sz then
        (Inl (ValueError ''a cannot be empty unless no samples are taken''), Rng raw pos)
      else
        (Inr (map (\<lambda>i. a ! (raw (pos + i) mod length a)) [0..<sz]), Rng raw (pos + sz)))"

definition invalid_data_variable :: exn where
  "invalid_data_variable =
     ValueError (''invalid data variable type. expected one of the following: ''
                 @ py_repr_list data_variables)"

text \<open>
  The \<open>try\<close> block that every branch of \<open>bootstrap\<close>, and of the functions applied at
  each point further down, repeats: fit, then \<open>calculate_return\<close>, NaN on a \<open>ValueError\<close>
  or a \<open>ZeroDivisionError\<close>.
\<close>

definition refit_and_calculate ::
  "library \<Rightarrow> sample \<Rightarrow> string \<Rightarrow> lmom_distr \<Rightarrow> string \<Rightarrow> pyfloat \<Rightarrow> exn + pyfloat" where
  "refit_and_calculate L ams distr lmom_distr data_variable arg_value =
     try_except is_value_zero
       (bind_exn (get_fitted_distr L ams distr lmom_distr) (\<lambda>(lmoments, fitted_distr).
          calculate_return (Some fitted_distr) data_variable arg_value))
       NaN"

definition bootstrap ::
  "library \<Rightarrow> rng \<Rightarrow> sample \<Rightarrow> string \<Rightarrow> string \<Rightarrow> pyfloat \<Rightarrow> (exn + pyfloat) \<times> rng" where
  "bootstrap L g ams distr data_variable arg_value =
     (if data_variable \<notin> set data_variables then (Inl invalid_data_variable, g)
      else case get_lmom_distr distr of
        Inl e \<Rightarrow> (Inl e, g)
      | Inr lmom_distr \<Rightarrow>
          let sample_size = length ams in
          (case random_choice g ams sample_size of
             (Inl e, g') \<Rightarrow> (Inl e, g')
           | (Inr new_ams, g') \<Rightarrow>
               (if distr = ''gev'' then
                  refit_and_calculate L new_ams distr lmom_distr data_variable arg_value
                else if distr = ''gumbel'' then
                  refit_and_calculate L new_ams distr lmom_distr data_variable arg_value
                else if distr = ''weibull'' then
                  refit_and_calculate L new_ams distr lmom_distr data_variable arg_value
                else if distr = ''pearson3'' then
                  refit_and_calculate L new_ams distr lmom_distr data_variable arg_value
                else if distr = ''genpareto'' then
                  refit_and_calculate L new_ams distr lmom_distr data_variable arg_value
                else Inl (UnboundLocalError ''result''),
                g')))"

text \<open>The loop of \<open>conf_int\<close>: \<open>bootstrap_values\<close> grows by one outcome per run.\<close>

fun bootstrap_loop ::
  "library \<Rightarrow> rng \<Rightarrow> sample \<Rightarrow> string \<Rightarrow> string \<Rightarrow> pyfloat \<Rightarrow> nat \<Rightarrow> pyfloat list \<Rightarrow>
   (exn + pyfloat list) \<times> rng" where
  "bootstrap_loop L g ams distr data_variable arg_value 0 bootstrap_values =
     (Inr bootstrap_values, g)"
| "bootstrap_loop L g ams distr data_variable arg_value (Suc n) bootstrap_values =
     (case bootstrap L g ams distr data_variable arg_value of
        (Inl e, g') \<Rightarrow> (Inl e, g')
      | (Inr result, g') \<Rightarrow>
          bootstrap_loop L g' ams distr data_variable arg_value n (bootstrap_values @ [result]))"

text \<open>
  \<open>np.percentile(a, qs)\<close> with the default linear interpolation between closest ranks.
  Percentiles outside \<open>[0, 100]\<close> are refused first. An empty \<open>a\<close> raises \<open>IndexError\<close>.
  A NaN anywhere in \<open>a\<close> makes every percentile NaN; otherwise the values are sorted
  and the percentile \<open>q\<close> sits at the fractional position \<open>q / 100 * (n - 1)\<close>.
\<close>

definition finite_values :: "pyfloat list \<Rightarrow> real list" where
  "finite_values a = concat (map (\<lambda>v. case v of Fin x \<Rightarrow> [x] | NaN \<Rightarrow> []) a)"

definition interpolate :: "real list \<Rightarrow> real \<Rightarrow> real" where
  "interpolate xs h =
     (let i = nat \<lfloor>h\<rfloor>; j = min (i + 1) (length xs - 1); gamma = h - real i
      in xs ! i + (xs ! j - xs ! i) * gamma)"

definition percentile_of :: "pyfloat list \<Rightarrow> real \<Rightarrow> exn + pyfloat" where
  "percentile_of a q =
     (if a = [] then Inl (IndexError ''index -1 is out of bounds for axis 0 with size 0'')
      else if NaN \<in> set a then Inr NaN
      else Inr (Fin (interpolate (sort (finite_values a)) (q / 100 * real (length a - 1)))))"

fun percentiles_of :: "pyfloat list \<Rightarrow> real list \<Rightarrow> exn + pyfloat list" where
  "percentiles_of a [] = Inr []"
| "percentiles_of a (q # qs) =
     bind_exn (percentile_of a q) (\<lambda>v. bind_exn (percentiles_of a qs) (\<lambda>vs. Inr (v # vs)))"

definition np_percentile :: "pyfloat list \<Rightarrow> real list \<Rightarrow> exn + pyfloat list" where
  "np_percentile a qs =
     (if list_ex (\<lambda>q. q < 0 \<or> 100 < q) qs then
        Inl (ValueError ''Percentiles must be in the range [0, 100]'')
      else percentiles_of a qs)"

definition conf_int ::
  "library \<Rightarrow> rng \<Rightarrow> sample \<Rightarrow> string \<Rightarrow> string \<Rightarrow> pyfloat \<Rightarrow> nat \<Rightarrow> real \<Rightarrow> real \<Rightarrow>
   (exn + pyfloat \<times> pyfloat) \<times> rng" where
  "conf_int L g ams distr data_variable arg_value bootstrap_runs
            conf_int_lower_bound conf_int_upper_bound =
     (case bootstrap_loop L g ams distr data_variable arg_value bootstrap_runs [] of
        (Inl e, g') \<Rightarrow> (Inl e, g')
      | (Inr bootstrap_values, g') \<Rightarrow>
          (bind_exn
             (np_percentile bootstrap_values [conf_int_lower_bound, conf_int_upper_bound])
             (\<lambda>conf_int_array. Inr (conf_int_array ! 0, conf_int_array ! 1)),
           g'))"

section \<open>Return values, probabilities and periods over a grid\<close>

text \<open>
  The function applied at each point by \<open>get_return_value\<close>, \<open>get_return_prob\<close> and
  \<open>get_return_period\<close>: the three closures differ only in \<open>data_variable\<close> and in the name
  of the argument. The estimate is guarded by \<open>try\<close>; the confidence interval follows it.
\<close>

definition estimate_with_conf_int ::
  "library \<Rightarrow> rng \<Rightarrow> sample \<Rightarrow> string \<Rightarrow> lmom_distr \<Rightarrow> string \<Rightarrow> pyfloat \<Rightarrow> nat \<Rightarrow>
   real \<Rightarrow> real \<Rightarrow> (exn + pyfloat \<times> pyfloat \<times> pyfloat) \<times> rng" where
  "estimate_with_conf_int L g ams distr lmom_distr data_variable arg_value bootstrap_runs
                          conf_int_lower_bound conf_int_upper_bound =
     (case refit_and_calculate L ams distr lmom_distr data_variable arg_value of
        Inl e \<Rightarrow> (Inl e, g)
      | Inr estimate \<Rightarrow>
          (case conf_int L g ams distr data_variable arg_value bootstrap_runs
                  conf_int_lower_bound conf_int_upper_bound of
             (Inl e, g') \<Rightarrow> (Inl e, g')
           | (Inr (conf_int_lower_limit, conf_int_upper_limit), g') \<Rightarrow>
               (Inr (estimate, conf_int_lower_limit, conf_int_upper_limit), g')))"

definition return_point ::
  "library \<Rightarrow> string \<Rightarrow> lmom_distr \<Rightarrow> string \<Rightarrow> pyfloat \<Rightarrow> nat \<Rightarrow> real \<Rightarrow> real \<Rightarrow>
   rng \<Rightarrow> sample \<Rightarrow> (exn + pyfloat \<times> pyfloat \<times> pyfloat) \<times> rng" where
  "return_point L distr lmom_distr data_variable arg_value bootstrap_runs
                conf_int_lower_bound conf_int_upper_bound g ams =
     (if distr = ''gev'' then
        estimate_with_conf_int L g ams distr lmom_distr data_variable arg_value
          bootstrap_runs conf_int_lower_bound conf_int_upper_bound
      else if distr = ''gumbel'' then
        estimate_with_conf_int L g ams distr lmom_distr data_variable arg_value
          bootstrap_runs conf_int_lower_bound conf_int_upper_bound
      else if distr = ''weibull'' then
        estimate_with_conf_int L g ams distr lmom_distr data_variable arg_value
          bootstrap_runs conf_int_lower_bound conf_int_upper_bound
      else if distr = ''pearson3'' then
        estimate_with_conf_int L g ams distr lmom_distr data_variable arg_value
          bootstrap_runs conf_int_lower_bound conf_int_upper_bound
      else if distr = ''genpareto'' then
        estimate_with_conf_int L g ams distr lmom_distr data_variable arg_value
          bootstrap_runs conf_int_lower_bound conf_int_upper_bound
      else (Inl (UnboundLocalError data_variable), g))"

text \<open>\<open>xr.apply_ufunc\<close> for a function that also advances the random generator.\<close>

fun apply_ufunc_rng ::
  "(rng \<Rightarrow> 'a \<Rightarrow> (exn + 'b) \<times> rng) \<Rightarrow> rng \<Rightarrow> 'a list \<Rightarrow> (exn + 'b list) \<times> rng" where
  "apply_ufunc_rng f g [] = (Inr [], g)"
| "apply_ufunc_rng f g (x # xs) =
     (case f g x of
        (Inl e, g') \<Rightarrow> (Inl e, g')
      | (Inr y, g') \<Rightarrow>
          (case apply_ufunc_rng f g' xs of
             (Inl e, g'') \<Rightarrow> (Inl e, g'')
           | (Inr ys, g'') \<Rightarrow> (Inr (y # ys), g'')))"

definition conf_int_vars ::
  "library \<Rightarrow> real \<Rightarrow> real \<Rightarrow> (pyfloat \<times> pyfloat \<times> pyfloat) list \<Rightarrow> pyfloat data_array list" where
  "conf_int_vars L conf_int_lower_bound conf_int_upper_bound results =
     [\<lparr>da_name = ''conf_int_lower_limit'',
       da_attrs = [''confidence interval lower bound'' \<mapsto>
                     py_str L (Fin conf_int_lower_bound) @ ''th percentile''],
       da_values = map (\<lambda>r. fst (snd r)) results\<rparr>,
      \<lparr>da_name = ''conf_int_upper_limit'',
       da_attrs = [''confidence interval upper bound'' \<mapsto>
                     py_str L (Fin conf_int_upper_bound) @ ''th percentile''],
       da_values = map (\<lambda>r. snd (snd r)) results\<rparr>]"

definition get_return_value ::
  "library \<Rightarrow> rng \<Rightarrow> sample data_array \<Rightarrow> pyfloat \<Rightarrow> string \<Rightarrow> nat \<Rightarrow> real \<Rightarrow> real \<Rightarrow> bool \<Rightarrow>
   (exn + pyfloat dataset) \<times> rng" where
  "get_return_value L g ams return_period distr bootstrap_runs
                    conf_int_lower_bound conf_int_upper_bound multiple_points =
     (let data_variable = ''return_value'' in
      case get_lmom_distr distr of
        Inl e \<Rightarrow> (Inl e, g)
      | Inr lmom_distr \<Rightarrow>
          let ams_attributes = da_attrs ams in
          (case point_series L multiple_points ams of
             Inl e \<Rightarrow> (Inl e, g)
           | Inr points \<Rightarrow>
          (case apply_ufunc_rng
                  (return_point L distr lmom_distr data_variable return_period bootstrap_runs
                     conf_int_lower_bound conf_int_upper_bound)
                  g points of
             (Inl e, g') \<Rightarrow> (Inl e, g')
           | (Inr results, g') \<Rightarrow>
               (Inr \<lparr>ds_vars =
                       \<lparr>da_name = ''return_value'',
                        da_attrs = [''return period'' \<mapsto>
                                      ''1 in '' @ py_str L return_period @ '' year event''],
                        da_values = map fst results\<rparr>
                       # conf_int_vars L conf_int_lower_bound conf_int_upper_bound results,
                     ds_attrs = ams_attributes(''distribution'' \<mapsto> distr)\<rparr>,
                g'))))"

definition get_return_prob ::
  "library \<Rightarrow> rng \<Rightarrow> sample data_array \<Rightarrow> pyfloat \<Rightarrow> string \<Rightarrow> nat \<Rightarrow> real \<Rightarrow> real \<Rightarrow> bool \<Rightarrow>
   (exn + pyfloat dataset) \<times> rng" where
  "get_return_prob L g ams threshold distr bootstrap_runs
                   conf_int_lower_bound conf_int_upper_bound multiple_points =
     (let data_variable = ''return_prob'' in
      case get_lmom_distr distr of
        Inl e \<Rightarrow> (Inl e, g)
      | Inr lmom_distr \<Rightarrow>
          let ams_attributes = da_attrs ams in
          (case point_series L multiple_points ams of
             Inl e \<Rightarrow> (Inl e, g)
           | Inr points \<Rightarrow>
          (case apply_ufunc_rng
                  (return_point L distr lmom_distr data_variable threshold bootstrap_runs
                     conf_int_lower_bound conf_int_upper_bound)
                  g points of
             (Inl e, g') \<Rightarrow> (Inl e, g')
           | (Inr results, g') \<Rightarrow>
               (Inr \<lparr>ds_vars =
                       \<lparr>da_name = ''return_prob'',
                        da_attrs = [''threshold'' \<mapsto>
                                      ''exceedance of '' @ py_str L threshold @ '' value event''],
                        da_values = map fst results\<rparr>
                       # conf_int_vars L conf_int_lower_bound conf_int_upper_bound results,
                     ds_attrs = ams_attributes(''distribution'' \<mapsto> distr)\<rparr>,
                g'))))"

definition get_return_period ::
  "library \<Rightarrow> rng \<Rightarrow> sample data_array \<Rightarrow> pyfloat \<Rightarrow> string \<Rightarrow> nat \<Rightarrow> real \<Rightarrow> real \<Rightarrow> bool \<Rightarrow>
   (exn + pyfloat dataset) \<times> rng" where
  "get_return_period L g ams return_value distr bootstrap_runs
                     conf_int_lower_bound conf_int_upper_bound multiple_points =
     (let data_variable = ''return_period'' in
      case get_lmom_distr distr of
        Inl e \<Rightarrow> (Inl e, g)
      | Inr lmom_distr \<Rightarrow>
          let ams_attributes = da_attrs ams in
          (case point_series L multiple_points ams of
             Inl e \<Rightarrow> (Inl e, g)
           | Inr points \<Rightarrow>
          (case apply_ufunc_rng
                  (return_point L distr lmom_distr data_variable return_value bootstrap_runs
                     conf_int_lower_bound conf_int_upper_bound)
                  g points of
             (Inl e, g') \<Rightarrow> (Inl e, g')
           | (Inr results, g') \<Rightarrow>
               (Inr \<lparr>ds_vars =
                       \<lparr>da_name = ''return_period'',
                        da_attrs = [''return value'' \<mapsto>
                                      ''occurrence of a '' @ py_str L return_value
                                      @ '' value event''],
                        da_values = map fst results\<rparr>
                       # conf_int_vars L conf_int_lower_bound conf_int_upper_bound results,
                     ds_attrs = ams_attributes(''distribution'' \<mapsto> distr)\<rparr>,
                g'))))"

section \<open>Annual maxima and exceedance counts\<close>

text \<open>
  Operations on the time axis come with the trace of the array operations completed so
  far: an error raised with an empty trace was raised before anything was computed on
  the data.
\<close>

datatype array_op = Compare string | Groupby_sum string | Resample_max

type_synonym 'a traced = "array_op list \<times> (exn + 'a)"

record series =
  s_attrs :: "string \<rightharpoonup> string"
  s_values :: "(datetime \<times> pyfloat) list"

definition extremes_types :: "string list" where
  "extremes_types = [''max'']"

definition get_ams :: "library \<Rightarrow> series \<Rightarrow> string \<Rightarrow> series traced" where
  "get_ams L da extremes_type =
     (if extremes_type \<notin> set extremes_types then
        ([], Inl (ValueError (''invalid extremes type. expected one of the following: ''
                              @ py_repr_list extremes_types)))
      else if extremes_type = ''max'' then
        ([Resample_max],
         Inr \<lparr>s_attrs = (s_attrs da)
                 (''extreme value extraction method'' \<mapsto> ''block maxima'',
                  ''extremes type'' \<mapsto> ''maxima'',
                  ''block size'' \<mapsto> ''1 year'',
                  ''timeseries type'' \<mapsto> ''annual max series''),
              s_values = resample_max L (s_values da)\<rparr>)
      else ([], Inl (UnboundLocalError ''ams'')))"

definition year_of :: "datetime \<Rightarrow> nat" where
  "year_of t = fst t"

definition date_of :: "datetime \<Rightarrow> nat \<times> nat \<times> nat" where
  "date_of t = (fst t, fst (snd t), fst (snd (snd t)))"

definition datetime_of_date :: "nat \<times> nat \<times> nat \<Rightarrow> datetime" where
  "datetime_of_date d = (fst d, fst (snd d), snd (snd d), 0)"

text \<open>
  \<open>events.groupby("time." + name).sum()\<close> on a boolean array: grouping an empty array
  raises \<open>ValueError\<close>; otherwise there is one entry per distinct key, in ascending order
  of the key, holding the number of true flags of the group.
\<close>

definition groupby_sum ::
  "string \<Rightarrow> ('t \<Rightarrow> 'k::linorder) \<Rightarrow> ('t \<times> bool) list \<Rightarrow> exn + ('k \<times> nat) list" where
  "groupby_sum name key events =
     (if events = [] then Inl (ValueError (name @ '' must not be empty''))
      else Inr (map (\<lambda>k. (k, sum_list (map (\<lambda>e. if snd e then 1 else 0)
                                         (filter (\<lambda>e. key (fst e) = k) events))))
                    (sort (remdups (map (\<lambda>e. key (fst e)) events)))))"

definition group_by_day :: "(datetime \<times> bool) list \<Rightarrow> exn + (datetime \<times> bool) list" where
  "group_by_day events_da =
     bind_exn (groupby_sum ''date'' date_of events_da) (\<lambda>day_totals.
       Inr (map (\<lambda>day_total. (datetime_of_date (fst day_total), 0 < snd day_total))
                day_totals))"

text \<open>The second half of \<open>get_exceedance_events\<close>: the optional grouping by day.\<close>

definition apply_groupby ::
  "array_op list \<Rightarrow> (datetime \<times> bool) list \<Rightarrow> string option \<Rightarrow> (datetime \<times> bool) list traced" where
  "apply_groupby tr events_da groupby =
     (case groupby of
        None \<Rightarrow> (tr, Inr events_da)
      | Some g \<Rightarrow>
          if g = ''1day'' then
            (case group_by_day events_da of
               Inl e \<Rightarrow> (tr, Inl e)
             | Inr grouped \<Rightarrow> (tr @ [Groupby_sum ''time.date'', Compare ''>''], Inr grouped))
          else
            (tr, Inl (ValueError
               (''Duration options other than '' @ [CHR 0x27] @ ''1day'' @ [CHR 0x27]
                @ '' not yet implmented.''))))"

definition get_exceedance_events ::
  "(datetime \<times> pyfloat) list \<Rightarrow> pyfloat \<Rightarrow> string \<Rightarrow> string option \<Rightarrow>
   (datetime \<times> bool) list traced" where
  "get_exceedance_events da threshold_value threshold_direction groupby =
     (if threshold_direction = ''above'' then
        apply_groupby [Compare ''>'']
          (map (\<lambda>e. (fst e, py_gt (snd e) threshold_value)) da) groupby
      else if threshold_direction = ''below'' then
        apply_groupby [Compare ''<'']
          (map (\<lambda>e. (fst e, py_lt (snd e) threshold_value)) da) groupby
      else
        ([], Inl (ValueError
           (''Unknown value for `threshold_direction` parameter: '' @ threshold_direction
            @ ''. Available options are '' @ [CHR 0x27] @ ''above'' @ [CHR 0x27] @ '' or ''
            @ [CHR 0x27] @ ''below'' @ [CHR 0x27] @ ''.''))))"

definition get_exceedance_count ::
  "(datetime \<times> pyfloat) list \<Rightarrow> pyfloat \<Rightarrow> string \<Rightarrow> string \<Rightarrow> string option \<Rightarrow>
   string option \<Rightarrow> string option \<Rightarrow> (nat \<times> nat) list traced" where
  "get_exceedance_count da threshold_value period_length threshold_direction
                        duration groupby smoothing =
     (if duration \<noteq> None then ([], Inl (ValueError ''Duration option not yet implemented.''))
      else if smoothing \<noteq> None then
        ([], Inl (ValueError ''Smoothing option not yet implemented.''))
      else case get_exceedance_events da threshold_value threshold_direction groupby of
        (tr, Inl e) \<Rightarrow> (tr, Inl e)
      | (tr, Inr events_da) \<Rightarrow>
          if period_length = ''1year'' then
            (case groupby_sum ''year'' year_of events_da of
               Inl e \<Rightarrow> (tr, Inl e)
             | Inr exceedance_count \<Rightarrow> (tr @ [Groupby_sum ''time.year''], Inr exceedance_count))
          else
            (tr, Inl (ValueError
               (''Other period_length options not yet implemented. Please use ''
                @ [CHR 0x27] @ ''1year'' @ [CHR 0x27] @ ''.''))))"

text \<open>
  The scipy name and the parameter keys that \<open>ks_stat\<close> passes to \<open>kstest\<close> for each
  registry name, read off its five branches.
\<close>

definition kstest_arguments :: "(string \<times> string \<times> string list) list" where
  "kstest_arguments =
     [(''gev'', ''genextreme'', [''c'', ''loc'', ''scale'']),
      (''gumbel'', ''gumbel_r'', [''loc'', ''scale'']),
      (''weibull'', ''weibull_min'', [''c'', ''loc'', ''scale'']),
      (''pearson3'', ''pearson3'', [''skew'', ''loc'', ''scale'']),
      (''genpareto'', ''genpareto'', [''c'', ''loc'', ''scale''])]"

text \<open>The generator after \<open>k\<close> more raw draws.\<close>

fun advance :: "rng \<Rightarrow> nat \<Rightarrow> rng" where
  "advance (Rng raw pos) k = Rng raw (pos + k)"

text \<open>
  An environment whose failures are all of the classes the source catches: the estimator
  and the distribution constructor raise only \<open>ValueError\<close> or \<open>ZeroDivisionError\<close>, and
  the methods of a fitted distribution raise only those or \<open>AttributeError\<close>.
\<close>

definition soft_library :: "library \<Rightarrow> bool" where
  "soft_library L \<longleftrightarrow>
     (\<forall>d s e. lmom_fit L d s = Inl e \<longrightarrow> is_value_zero e)
     \<and> (\<forall>f p e. frozen L f p = Inl e \<longrightarrow> is_value_zero e)
     \<and> (\<forall>f p fd x e. frozen L f p = Inr fd \<longrightarrow>
           (ppf fd x = Inl e \<longrightarrow> is_value_zero_attr e)
           \<and> (cdf fd x = Inl e \<longrightarrow> is_value_zero_attr e))"

section \<open>A concrete environment for the instances\<close>

text \<open>
  \<open>scipy.stats.genpareto(c=-1, loc, scale)\<close> is the uniform distribution on
  \<open>[loc, loc + scale]\<close>: its quantile function is \<open>loc + scale * q\<close> on \<open>[0, 1]\<close> and NaN
  outside, its distribution function is \<open>(x - loc) / scale\<close> cut to \<open>[0, 1]\<close>.
\<close>

definition uniform_distr :: "real \<Rightarrow> real \<Rightarrow> fitted" where
  "uniform_distr loc scale =
     \<lparr>ppf = (\<lambda>q. case q of
                NaN \<Rightarrow> Inr NaN
              | Fin p \<Rightarrow> if 0 \<le> p \<and> p \<le> 1 then Inr (Fin (loc + scale * p)) else Inr NaN),
      cdf = (\<lambda>x. case x of
                NaN \<Rightarrow> Inr NaN
              | Fin y \<Rightarrow> Inr (Fin (max 0 (min 1 ((y - loc) / scale)))))\<rparr>"

text \<open>
  An environment with a toy estimator: a sample with fewer than two distinct values
  cannot be fitted, every other sample is fitted by the uniform distribution of width 1
  that starts at the sample's first value, and the KS test divides by zero on fewer than
  three values.
\<close>

definition example_library :: library where
  "example_library =
     \<lparr>lmom_fit = (\<lambda>family ams.
        if length (remdups ams) < 2 then Inl (ValueError ''L-Moments invalid'')
        else Inr [(''c'', Fin (- 1)), (''skew'', Fin 0), (''loc'', hd ams), (''scale'', Fin 1)]),
      frozen = (\<lambda>family lmoments.
        case map_of lmoments ''loc'' of
          Some (Fin loc) \<Rightarrow> Inr (uniform_distr loc 1)
        | _ \<Rightarrow> Inl (ValueError ''invalid parameters'')),
      kstest = (\<lambda>ams name args.
        if length ams < 3 then Inl ZeroDivisionError else Inr (Fin (1 / 4), Fin (1 / 2))),
      py_str = (\<lambda>x. ''x''),
      resample_max = (\<lambda>xs. xs),
      point_series = (\<lambda>multiple_points ams. Inr (da_values ams))\<rparr>"

definition example_ams :: "sample data_array" where
  "example_ams =
     \<lparr>da_name = ''tasmax'', da_attrs = [''units'' \<mapsto> ''K''],
      da_values = [[Fin 1, Fin 2, Fin 3]]\<rparr>"

text \<open>Raw draws that rotate a sample of three, and raw draws that repeat its first value.\<close>

definition rotating :: "nat \<Rightarrow> nat" where
  "rotating i = i + i div 3"

definition stuck :: "nat \<Rightarrow> nat" where
  "stuck i = 0"

text \<open>A distribution whose methods always raise.\<close>

definition failing_distr :: fitted where
  "failing_distr =
     \<lparr>ppf = (\<lambda>q. Inl (ValueError ''domain error'')), cdf = (\<lambda>x. Inl ZeroDivisionError)\<rparr>"

text \<open>
  Three years of hourly values: five above 30 in 2001, none in 2002, twelve in 2003.
\<close>

definition example_da :: "(datetime \<times> pyfloat) list" where
  "example_da =
     map (\<lambda>h. ((2001, 1, 1, h), Fin 31)) [0, 1, 2, 3, 4]
     @ [((2001, 1, 1, 5), Fin 30), ((2002, 6, 1, 0), Fin 12), ((2002, 6, 1, 1), NaN)]
     @ map (\<lambda>h. ((2003, 7, 1, h), Fin 40)) [0, 1, 2, 3, 4, 5, 6, 7, 8, 9, 10, 11]"

definition example_series :: series where
  "example_series = \<lparr>s_attrs = [''units'' \<mapsto> ''K''], s_values = example_da\<rparr>"

section \<open>Shared lemmas\<close>

lemma data_variable_cases:
  "dv \<in> set data_variables \<longleftrightarrow>
     dv = ''return_value'' \<or> dv = ''return_prob'' \<or> dv = ''return_period''"
  by (auto simp: data_variables_def)

lemma round_half_even_of_int: "round_half_even (of_int k) = k"
  by (simp add: round_half_even_def)

lemma example_fit:
  "get_fitted_distr example_library [Fin 1, Fin 1] ''gev'' Ldistr_gev
     = Inl (ValueError ''L-Moments invalid'')"
  "get_fitted_distr example_library [Fin 1, Fin 1, Fin 1] ''gev'' Ldistr_gev
     = Inl (ValueError ''L-Moments invalid'')"
  "get_fitted_distr example_library [Fin 1, Fin 2] ''gev'' Ldistr_gev
     = Inr ([(''c'', Fin (- 1)), (''skew'', Fin 0), (''loc'', Fin 1), (''scale'', Fin 1)],
            uniform_distr 1 1)"
  "get_fitted_distr example_library [Fin 1, Fin 2, Fin 3] ''gev'' Ldistr_gev
     = Inr ([(''c'', Fin (- 1)), (''skew'', Fin 0), (''loc'', Fin 1), (''scale'', Fin 1)],
            uniform_distr 1 1)"
  "get_fitted_distr example_library [Fin 2, Fin 3, Fin 1] ''gev'' Ldistr_gev
     = Inr ([(''c'', Fin (- 1)), (''skew'', Fin 0), (''loc'', Fin 2), (''scale'', Fin 1)],
            uniform_distr 2 1)"
  by (simp_all add: get_fitted_distr_def fit_and_freeze_def example_library_def bind_exn_def)

lemma ks_stat_ks_try:
  assumes "(distr, scipy_name, keys) \<in> set kstest_arguments"
  shows "ks_stat L distr lmom_distr ams = ks_try L ams distr lmom_distr scipy_name keys"
  using assms by (auto simp: kstest_arguments_def ks_stat_def)

lemma example_choice:
  "random_choice (Rng rotating 0) [Fin 1, Fin 2, Fin 3] (Suc (Suc (Suc 0)))
     = (Inr [Fin 1, Fin 2, Fin 3], Rng rotating 3)"
  "random_choice (Rng rotating 3) [Fin 1, Fin 2, Fin 3] (Suc (Suc (Suc 0)))
     = (Inr [Fin 2, Fin 3, Fin 1], Rng rotating 6)"
  "random_choice (Rng stuck pos) [Fin 1, Fin 2, Fin 3] (Suc (Suc (Suc 0)))
     = (Inr [Fin 1, Fin 1, Fin 1], Rng stuck (pos + 3))"
  by (simp_all add: rotating_def stuck_def)

lemma example_return_value:
  "calculate_return (Some (uniform_distr 1 1)) ''return_value'' (Fin 10) = Inr (Fin (19 / 10))"
  "calculate_return (Some (uniform_distr 2 1)) ''return_value'' (Fin 10) = Inr (Fin (29 / 10))"
  using round_half_even_of_int [of 190000] round_half_even_of_int [of 290000]
  by (simp_all add: calculate_return_def try_except_def bind_exn_def call_ppf_def
      uniform_distr_def)

lemma example_refit:
  "refit_and_calculate example_library [Fin 1, Fin 2, Fin 3] ''gev'' Ldistr_gev
     ''return_value'' (Fin 10) = Inr (Fin (19 / 10))"
  "refit_and_calculate example_library [Fin 2, Fin 3, Fin 1] ''gev'' Ldistr_gev
     ''return_value'' (Fin 10) = Inr (Fin (29 / 10))"
  "refit_and_calculate example_library [Fin 1, Fin 1, Fin 1] ''gev'' Ldistr_gev
     dv arg = Inr NaN"
  by (simp_all add: refit_and_calculate_def example_fit try_except_def bind_exn_def
      example_return_value)

lemma example_registry: "get_lmom_distr ''gev'' = Inr Ldistr_gev"
  by (simp add: get_lmom_distr_def distrs_def)

lemma example_bootstrap:
  "bootstrap example_library (Rng rotating 0) [Fin 1, Fin 2, Fin 3] ''gev''
     ''return_value'' (Fin 10) = (Inr (Fin (19 / 10)), Rng rotating 3)"
  "bootstrap example_library (Rng rotating 3) [Fin 1, Fin 2, Fin 3] ''gev''
     ''return_value'' (Fin 10) = (Inr (Fin (29 / 10)), Rng rotating 6)"
  "dv \<in> set data_variables \<Longrightarrow>
   bootstrap example_library (Rng stuck pos) [Fin 1, Fin 2, Fin 3] ''gev'' dv arg
     = (Inr NaN, Rng stuck (pos + 3))"
  by (simp_all add: bootstrap_def data_variables_def example_registry example_choice
      example_refit del: random_choice.simps)

lemma example_loop:
  "bootstrap_loop example_library (Rng rotating 0) [Fin 1, Fin 2, Fin 3] ''gev''
     ''return_value'' (Fin 10) 2 [] = (Inr [Fin (19 / 10), Fin (29 / 10)], Rng rotating 6)"
  "dv \<in> set data_variables \<Longrightarrow>
   bootstrap_loop example_library (Rng stuck 0) [Fin 1, Fin 2, Fin 3] ''gev'' dv arg 2 []
     = (Inr [NaN, NaN], Rng stuck 6)"
  by (simp_all add: numeral_2_eq_2 example_bootstrap)

lemma example_percentile_of:
  "percentile_of [Fin (19 / 10), Fin (29 / 10)] (5 / 2) = Inr (Fin (77 / 40))"
  "percentile_of [Fin (19 / 10), Fin (29 / 10)] (195 / 2) = Inr (Fin (23 / 8))"
  "percentile_of [NaN, NaN] q = Inr NaN"
  by (simp_all add: percentile_of_def finite_values_def interpolate_def)

lemma example_percentile:
  "np_percentile [Fin (19 / 10), Fin (29 / 10)] [5 / 2, 195 / 2]
     = Inr [Fin (77 / 40), Fin (23 / 8)]"
  "np_percentile [NaN, NaN] [5 / 2, 195 / 2] = Inr [NaN, NaN]"
  by (simp_all add: np_percentile_def example_percentile_of bind_exn_def)

lemma example_conf_int:
  "conf_int example_library (Rng rotating 0) [Fin 1, Fin 2, Fin 3] ''gev''
     ''return_value'' (Fin 10) 2 (5 / 2) (195 / 2)
     = (Inr (Fin (77 / 40), Fin (23 / 8)), Rng rotating 6)"
  "dv \<in> set data_variables \<Longrightarrow>
   conf_int example_library (Rng stuck 0) [Fin 1, Fin 2, Fin 3] ''gev'' dv arg 2
     (5 / 2) (195 / 2) = (Inr (NaN, NaN), Rng stuck 6)"
  by (simp_all add: conf_int_def example_loop example_percentile bind_exn_def)

lemma example_points: "point_series example_library mp a = Inr (da_values a)"
  by (simp add: example_library_def)

lemma example_estimates:
  "refit_and_calculate example_library [Fin 1, Fin 2, Fin 3] ''gev'' Ldistr_gev
     ''return_prob'' (Fin (3 / 2)) = Inr (Fin (1 / 2))"
  "refit_and_calculate example_library [Fin 1, Fin 2, Fin 3] ''gev'' Ldistr_gev
     ''return_period'' (Fin (3 / 2)) = Inr (Fin 2)"
  using round_half_even_of_int [of 2000]
  by (simp_all add: refit_and_calculate_def example_fit try_except_def bind_exn_def
      calculate_return_def call_cdf_def uniform_distr_def)

lemma example_datasets:
  "\<exists>ds. get_lmoments example_library example_ams ''gev'' True = Inr ds"
  "\<exists>ds. get_ks_stat example_library example_ams ''gev'' True = Inr ds"
  "\<exists>ds. get_return_value example_library (Rng rotating 0) example_ams (Fin 10) ''gev'' 2
          (5 / 2) (195 / 2) True = (Inr ds, Rng rotating 6)"
  "\<exists>ds. get_return_prob example_library (Rng stuck 0) example_ams (Fin (3 / 2)) ''gev'' 2
          (5 / 2) (195 / 2) True = (Inr ds, Rng stuck 6)"
  "\<exists>ds. get_return_period example_library (Rng stuck 0) example_ams (Fin (3 / 2)) ''gev'' 2
          (5 / 2) (195 / 2) True = (Inr ds, Rng stuck 6)"
proof -
  show "\<exists>ds. get_lmoments example_library example_ams ''gev'' True = Inr ds"
    by (simp add: get_lmoments_def example_registry bind_exn_def example_ams_def
        example_library_def)
  have "kstest example_library [Fin 1, Fin 2, Fin 3] ''genextreme'' [Fin (- 1), Fin 1, Fin 1]
          = Inr (Fin (1 / 4), Fin (1 / 2))"
    by (simp add: example_library_def)
  then have "ks_stat example_library ''gev'' Ldistr_gev [Fin 1, Fin 2, Fin 3]
          = Inr (Fin (1 / 4), Fin (1 / 2))"
    by (simp add: ks_stat_def ks_try_def try_except_def bind_exn_def example_fit)
  then show "\<exists>ds. get_ks_stat example_library example_ams ''gev'' True = Inr ds"
    by (simp add: get_ks_stat_def example_registry bind_exn_def example_ams_def example_points)
  show "\<exists>ds. get_return_value example_library (Rng rotating 0) example_ams (Fin 10) ''gev'' 2
          (5 / 2) (195 / 2) True = (Inr ds, Rng rotating 6)"
    by (simp add: get_return_value_def example_registry example_ams_def return_point_def
        estimate_with_conf_int_def example_refit example_conf_int example_points)
  show "\<exists>ds. get_return_prob example_library (Rng stuck 0) example_ams (Fin (3 / 2)) ''gev'' 2
          (5 / 2) (195 / 2) True = (Inr ds, Rng stuck 6)"
    by (simp add: get_return_prob_def example_registry example_ams_def return_point_def
        estimate_with_conf_int_def example_estimates example_conf_int data_variables_def
        example_points)
  show "\<exists>ds. get_return_period example_library (Rng stuck 0) example_ams (Fin (3 / 2)) ''gev'' 2
          (5 / 2) (195 / 2) True = (Inr ds, Rng stuck 6)"
    by (simp add: get_return_period_def example_registry example_ams_def return_point_def
        estimate_with_conf_int_def example_estimates example_conf_int data_variables_def
        example_points)
qed

lemma sum_flags_count:
  "sum_list (map (\<lambda>e. if snd e then 1 else 0) (filter (\<lambda>e. key (fst e) = k) (map (\<lambda>e. (fst e, P e)) xs)))
     = length (filter (\<lambda>e. key (fst e) = k \<and> P e) xs)"
  by (induction xs) auto

lemma groupby_sum_flags:
  "xs \<noteq> [] \<Longrightarrow>
   groupby_sum name key (map (\<lambda>e. (fst e, P e)) xs)
     = Inr (map (\<lambda>k. (k, length (filter (\<lambda>e. key (fst e) = k \<and> P e) xs)))
                (sort (remdups (map (\<lambda>e. key (fst e)) xs))))"
  by (simp add: groupby_sum_def sum_flags_count comp_def)

lemma sort_remdups_three:
  fixes y1 :: "'a::linorder"
  assumes "y1 < y2" "y2 < y3" "set ys = {y1, y2, y3}"
  shows "sort (remdups ys) = [y1, y2, y3]"
proof -
  have "sorted (sort (remdups ys))" "distinct (sort (remdups ys))"
    "set (sort (remdups ys)) = set [y1, y2, y3]"
    using assms by simp_all
  moreover have "sorted [y1, y2, y3]" "distinct [y1, y2, y3]"
    using assms by auto
  ultimately show ?thesis
    by (metis sorted_distinct_set_unique)
qed

lemma example_da_years:
  "set (map (\<lambda>e. year_of (fst e)) example_da) = {2001, 2002, 2003}"
  "length (filter (\<lambda>e. year_of (fst e) = 2001 \<and> py_gt (snd e) (Fin 30)) example_da) = 5"
  "length (filter (\<lambda>e. year_of (fst e) = 2002 \<and> py_gt (snd e) (Fin 30)) example_da) = 0"
  "length (filter (\<lambda>e. year_of (fst e) = 2003 \<and> py_gt (snd e) (Fin 30)) example_da) = 12"
  by (auto simp: example_da_def year_of_def)

lemma advance_advance: "advance (advance g a) b = advance g (a + b)"
  by (cases g) simp

lemma advance_0: "advance g 0 = g"
  by (cases g) simp

lemma random_choice_draw:
  "\<exists>new_ams. random_choice g ams (length ams) = (Inr new_ams, advance g (length ams))
             \<and> length new_ams = length ams \<and> set new_ams \<subseteq> set ams"
proof (cases g)
  case (Rng raw pos)
  show ?thesis
  proof (cases "ams = []")
    case True
    with Rng show ?thesis by simp
  next
    case False
    then have "\<And>k. ams ! (k mod length ams) \<in> set ams"
      by simp
    with Rng False show ?thesis
      by auto
  qed
qed

lemma py_truediv_Inl: "py_truediv a b = Inl e \<Longrightarrow> e = ZeroDivisionError"
  by (cases b; cases a) (auto split: if_splits)

lemma calculate_return_total:
  assumes "dv \<in> set data_variables"
    and "\<And>x e. ppf fd x = Inl e \<Longrightarrow> is_value_zero_attr e"
    and "\<And>x e. cdf fd x = Inl e \<Longrightarrow> is_value_zero_attr e"
  shows "\<exists>r. calculate_return (Some fd) dv arg = Inr r"
proof -
  have t: "\<And>m. (\<forall>e. m = Inl e \<longrightarrow> is_value_zero_attr e) \<Longrightarrow>
             \<exists>r. try_except is_value_zero_attr m NaN = Inr r"
    by (auto simp: try_except_def split: sum.splits)
  from assms(1) consider "dv = ''return_value''" | "dv = ''return_prob''" | "dv = ''return_period''"
    by (auto simp: data_variable_cases)
  then show ?thesis
  proof cases
    case 1
    have "\<forall>e. bind_exn (py_truediv (Fin 1) arg) (\<lambda>q.
             let return_event = py_sub (Fin 1) q in
             bind_exn (call_ppf (Some fd) return_event) (\<lambda>return_value.
               Inr (py_round return_value 5))) = Inl e \<longrightarrow> is_value_zero_attr e"
      using assms(2)
      by (auto simp: bind_exn_def call_ppf_def Let_def split: sum.splits
          dest: py_truediv_Inl)
    from t [OF this] 1 show ?thesis
      by (simp add: calculate_return_def)
  next
    case 2
    have "\<forall>e. bind_exn (call_cdf (Some fd) arg) (\<lambda>c. Inr (py_sub (Fin 1) c)) = Inl e
            \<longrightarrow> is_value_zero_attr e"
      using assms(3) by (auto simp: bind_exn_def call_cdf_def split: sum.splits)
    from t [OF this] 2 show ?thesis
      by (simp add: calculate_return_def)
  next
    case 3
    have "\<forall>e. bind_exn (call_cdf (Some fd) arg) (\<lambda>return_prob.
             if py_eq return_prob (Fin 1) then Inr NaN
             else bind_exn (py_truediv (Fin (- 1)) (py_sub return_prob (Fin 1)))
                    (\<lambda>return_period. Inr (py_round return_period 3))) = Inl e
            \<longrightarrow> is_value_zero_attr e"
      using assms(3)
      by (auto simp: bind_exn_def call_cdf_def split: sum.splits if_splits
          dest: py_truediv_Inl)
    from t [OF this] 3 show ?thesis
      by (simp add: calculate_return_def)
  qed
qed

lemma get_fitted_distr_family:
  assumes "distr \<in> set distrs"
  shows "\<exists>f. get_fitted_distr L s distr ld = fit_and_freeze L s ld f"
proof -
  from assms consider "distr = ''gev''" | "distr = ''gumbel''" | "distr = ''weibull''"
    | "distr = ''pearson3''" | "distr = ''genpareto''"
    by (auto simp: distrs_def)
  then show ?thesis
  proof cases
    case 1
    then have "get_fitted_distr L s distr ld = fit_and_freeze L s ld Stats_genextreme"
      by (simp add: get_fitted_distr_def)
    then show ?thesis ..
  next
    case 2
    then have "get_fitted_distr L s distr ld = fit_and_freeze L s ld Stats_gumbel_r"
      by (simp add: get_fitted_distr_def)
    then show ?thesis ..
  next
    case 3
    then have "get_fitted_distr L s distr ld = fit_and_freeze L s ld Stats_weibull_min"
      by (simp add: get_fitted_distr_def)
    then show ?thesis ..
  next
    case 4
    then have "get_fitted_distr L s distr ld = fit_and_freeze L s ld Stats_pearson3"
      by (simp add: get_fitted_distr_def)
    then show ?thesis ..
  next
    case 5
    then have "get_fitted_distr L s distr ld = fit_and_freeze L s ld Stats_genpareto"
      by (simp add: get_fitted_distr_def)
    then show ?thesis ..
  qed
qed

lemma fit_and_freeze_Inl:
  assumes "fit_and_freeze L s ld f = Inl e"
  shows "lmom_fit L ld s = Inl e \<or> (\<exists>lm. frozen L f lm = Inl e)"
proof (cases "lmom_fit L ld s")
  case (Inl e')
  with assms show ?thesis by (simp add: fit_and_freeze_def bind_exn_def)
next
  case (Inr lm)
  with assms have "frozen L f lm = Inl e"
    by (cases "frozen L f lm") (simp_all add: fit_and_freeze_def bind_exn_def)
  then show ?thesis by blast
qed

lemma fit_and_freeze_Inr:
  assumes "fit_and_freeze L s ld f = Inr (lm, fd)"
  shows "frozen L f lm = Inr fd"
proof (cases "lmom_fit L ld s")
  case (Inl e')
  with assms show ?thesis by (simp add: fit_and_freeze_def bind_exn_def)
next
  case (Inr lm')
  with assms show ?thesis
    by (cases "frozen L f lm'") (simp_all add: fit_and_freeze_def bind_exn_def)
qed

lemma get_fitted_distr_soft:
  assumes "soft_library L" "get_fitted_distr L s distr ld = Inl e" "distr \<in> set distrs"
  shows "is_value_zero e"
proof -
  from get_fitted_distr_family [OF assms(3)] assms(2)
  obtain f where "fit_and_freeze L s ld f = Inl e" by metis
  from fit_and_freeze_Inl [OF this] assms(1) show ?thesis
    unfolding soft_library_def by blast
qed

lemma get_fitted_distr_methods:
  assumes "soft_library L" "get_fitted_distr L s distr ld = Inr (lm, fd)"
  shows "(ppf fd x = Inl e \<longrightarrow> is_value_zero_attr e) \<and> (cdf fd x = Inl e \<longrightarrow> is_value_zero_attr e)"
proof -
  have "distr \<in> set distrs"
  proof (rule ccontr)
    assume "distr \<notin> set distrs"
    then have "get_fitted_distr L s distr ld = Inl (UnboundLocalError ''lmoments'')"
      by (simp add: get_fitted_distr_def distrs_def)
    with assms(2) show False by simp
  qed
  from get_fitted_distr_family [OF this] assms(2)
  obtain f where "fit_and_freeze L s ld f = Inr (lm, fd)" by metis
  then have "frozen L f lm = Inr fd" by (rule fit_and_freeze_Inr)
  with assms(1) show ?thesis
    unfolding soft_library_def by blast
qed

lemma refit_and_calculate_total:
  assumes "soft_library L" "dv \<in> set data_variables" "distr \<in> set distrs"
  shows "\<exists>r. refit_and_calculate L s distr ld dv arg = Inr r"
proof (cases "get_fitted_distr L s distr ld")
  case (Inl e)
  with assms have "is_value_zero e" by (auto dest: get_fitted_distr_soft)
  with Inl show ?thesis
    by (simp add: refit_and_calculate_def try_except_def bind_exn_def)
next
  case (Inr p)
  obtain lm fd where p: "p = (lm, fd)" by (cases p)
  note m = get_fitted_distr_methods [OF assms(1) Inr [unfolded p]]
  have "\<exists>r. calculate_return (Some fd) dv arg = Inr r"
  proof (rule calculate_return_total [OF assms(2)])
    fix x e assume "ppf fd x = Inl e"
    with m show "is_value_zero_attr e" by blast
  next
    fix x e assume "cdf fd x = Inl e"
    with m show "is_value_zero_attr e" by blast
  qed
  then obtain r where "calculate_return (Some fd) dv arg = Inr r" by blast
  with Inr p show ?thesis
    by (simp add: refit_and_calculate_def try_except_def bind_exn_def)
qed

lemma refit_and_calculate_fit_failure:
  assumes "get_fitted_distr L s distr ld = Inl e" "refit_and_calculate L s distr ld dv arg = Inr r"
  shows "r = NaN"
  using assms
  by (auto simp: refit_and_calculate_def try_except_def bind_exn_def split: if_splits)

lemma get_lmom_distr_Inr: "get_lmom_distr distr = Inr ld \<Longrightarrow> distr \<in> set distrs"
  by (auto simp: get_lmom_distr_def split: if_splits)

lemma bootstrap_valid:
  assumes "dv \<in> set data_variables" "get_lmom_distr distr = Inr ld"
    "random_choice g ams (length ams) = (Inr new_ams, g')"
  shows "bootstrap L g ams distr dv arg = (refit_and_calculate L new_ams distr ld dv arg, g')"
proof -
  from assms(2) have "distr \<in> set distrs" by (rule get_lmom_distr_Inr)
  then have "distr = ''gev'' \<or> distr = ''gumbel'' \<or> distr = ''weibull'' \<or> distr = ''pearson3''
             \<or> distr = ''genpareto''"
    by (simp add: distrs_def)
  with assms(1,3) show ?thesis
    unfolding bootstrap_def assms(2) by (auto simp del: random_choice.simps)
qed

lemma bootstrap_Inr:
  assumes "bootstrap L g ams distr dv arg = (Inr r, g')"
  shows "dv \<in> set data_variables \<and> g' = advance g (length ams)
         \<and> (\<exists>ld new_ams. get_lmom_distr distr = Inr ld
               \<and> random_choice g ams (length ams) = (Inr new_ams, g')
               \<and> refit_and_calculate L new_ams distr ld dv arg = Inr r)"
proof -
  have dv: "dv \<in> set data_variables"
  proof (rule ccontr)
    assume "dv \<notin> set data_variables"
    then have "bootstrap L g ams distr dv arg = (Inl invalid_data_variable, g)"
      by (simp add: bootstrap_def)
    with assms show False by simp
  qed
  obtain ld where ld: "get_lmom_distr distr = Inr ld"
  proof (cases "get_lmom_distr distr")
    case (Inl e)
    with dv have "bootstrap L g ams distr dv arg = (Inl e, g)"
      by (simp add: bootstrap_def)
    with assms show ?thesis by simp
  next
    case (Inr ld)
    then show ?thesis by (rule that)
  qed
  from random_choice_draw [of g ams]
  obtain new_ams where c: "random_choice g ams (length ams) = (Inr new_ams, advance g (length ams))"
    by (elim exE conjE)
  have "(refit_and_calculate L new_ams distr ld dv arg, advance g (length ams)) = (Inr r, g')"
    using bootstrap_valid [OF dv ld c, of L arg] assms by (rule trans [OF sym])
  then have r: "refit_and_calculate L new_ams distr ld dv arg = Inr r"
    and g: "g' = advance g (length ams)"
    by auto
  from c have c': "random_choice g ams (length ams) = (Inr new_ams, g')"
    unfolding g .
  show ?thesis
    by (intro conjI exI [of _ ld] exI [of _ new_ams]) (fact dv g ld c' r)+
qed

lemma bootstrap_loop_Inr:
  assumes "bootstrap_loop L g ams distr dv arg n acc = (Inr out, g')"
  shows "g' = advance g (n * length ams)
         \<and> (\<exists>vals. out = acc @ vals \<and> length vals = n
               \<and> (\<forall>i<n. bootstrap L (advance g (i * length ams)) ams distr dv arg
                            = (Inr (vals ! i), advance g (Suc i * length ams))))"
  using assms
proof (induction n arbitrary: g acc)
  case 0
  then show ?case by (simp add: advance_0)
next
  case (Suc n)
  obtain res g1 where b: "bootstrap L g ams distr dv arg = (res, g1)"
    by (cases "bootstrap L g ams distr dv arg")
  show ?case
  proof (cases res)
    case (Inl e)
    with b Suc.prems show ?thesis by simp
  next
    case (Inr r)
    with b have b': "bootstrap L g ams distr dv arg = (Inr r, g1)" by simp
    from bootstrap_Inr [OF b'] have g1: "g1 = advance g (length ams)" by simp
    from b' Suc.prems
    have "bootstrap_loop L g1 ams distr dv arg n (acc @ [r]) = (Inr out, g')" by simp
    from Suc.IH [OF this] obtain vals where
      g': "g' = advance g1 (n * length ams)" and
      out: "out = (acc @ [r]) @ vals" and len: "length vals = n" and
      each: "\<forall>i<n. bootstrap L (advance g1 (i * length ams)) ams distr dv arg
                     = (Inr (vals ! i), advance g1 (Suc i * length ams))"
      by (elim conjE exE)
    have 1: "g' = advance g (Suc n * length ams)"
      by (simp add: g' g1 advance_advance add.commute)
    have 2: "out = acc @ (r # vals)" by (simp add: out)
    have 3: "length (r # vals) = Suc n" by (simp add: len)
    have 4: "\<forall>i<Suc n. bootstrap L (advance g (i * length ams)) ams distr dv arg
                     = (Inr ((r # vals) ! i), advance g (Suc i * length ams))"
    proof (intro allI impI)
      fix i assume i: "i < Suc n"
      show "bootstrap L (advance g (i * length ams)) ams distr dv arg
              = (Inr ((r # vals) ! i), advance g (Suc i * length ams))"
      proof (cases i)
        case 0
        with b' g1 show ?thesis by (simp add: advance_0)
      next
        case (Suc j)
        with i have "j < n" by simp
        with each have "bootstrap L (advance g1 (j * length ams)) ams distr dv arg
                     = (Inr (vals ! j), advance g1 (Suc j * length ams))" by simp
        then show ?thesis
          by (simp add: Suc g1 advance_advance add.commute)
      qed
    qed
    show ?thesis
      by (intro conjI exI [of _ "r # vals"]) (fact 1 2 3 4)+
  qed
qed

lemma bootstrap_total:
  assumes "soft_library L" "dv \<in> set data_variables" "distr \<in> set distrs"
  shows "\<exists>r. bootstrap L g ams distr dv arg = (Inr r, advance g (length ams))"
proof -
  from assms(3) obtain ld where ld: "get_lmom_distr distr = Inr ld"
    by (auto simp: get_lmom_distr_def distrs_def)
  from random_choice_draw [of g ams]
  obtain new_ams where c: "random_choice g ams (length ams) = (Inr new_ams, advance g (length ams))"
    by (elim exE conjE)
  from refit_and_calculate_total [OF assms, of new_ams ld arg]
  obtain r where "refit_and_calculate L new_ams distr ld dv arg = Inr r"
    by (elim exE)
  with bootstrap_valid [OF assms(2) ld c, of L arg] show ?thesis
    by simp
qed

lemma bootstrap_loop_total:
  assumes "soft_library L" "dv \<in> set data_variables" "distr \<in> set distrs"
  shows "\<exists>out. bootstrap_loop L g ams distr dv arg n acc = (Inr out, advance g (n * length ams))"
proof (induction n arbitrary: g acc)
  case 0
  show ?case by (simp add: advance_0)
next
  case (Suc n)
  from bootstrap_total [OF assms, of g ams arg]
  obtain r where r: "bootstrap L g ams distr dv arg = (Inr r, advance g (length ams))"
    by (elim exE)
  from Suc.IH [of "advance g (length ams)" "acc @ [r]"]
  obtain out where "bootstrap_loop L (advance g (length ams)) ams distr dv arg n (acc @ [r])
                      = (Inr out, advance (advance g (length ams)) (n * length ams))"
    by (elim exE)
  with r show ?case
    by (simp add: advance_advance)
qed

lemma interpolate_bounds:
  assumes "sorted xs" "0 \<le> h" "h \<le> real (length xs - 1)" "xs \<noteq> []"
  shows "xs ! nat \<lfloor>h\<rfloor> \<le> interpolate xs h"
    and "interpolate xs h \<le> xs ! min (nat \<lfloor>h\<rfloor> + 1) (length xs - 1)"
proof -
  let ?i = "nat \<lfloor>h\<rfloor>"
  let ?j = "min (?i + 1) (length xs - 1)"
  let ?g = "h - real ?i"
  have i: "real ?i \<le> h" using assms(2) by simp
  have g0: "0 \<le> ?g" using i by simp
  have g1: "?g \<le> 1"
  proof -
    have "h < of_int \<lfloor>h\<rfloor> + 1" by linarith
    moreover have "real ?i = of_int \<lfloor>h\<rfloor>" using assms(2) by simp
    ultimately show ?thesis by linarith
  qed
  have "real ?i \<le> real (length xs - 1)" using i assms(3) by linarith
  then have ile: "?i \<le> length xs - 1" by simp
  then have ij: "?i \<le> ?j" by simp
  have jlt: "?j < length xs" using assms(4) by (cases xs) auto
  from assms(1) ij jlt have d: "xs ! ?i \<le> xs ! ?j"
    by (rule sorted_nth_mono)
  have eq: "interpolate xs h = xs ! ?i + (xs ! ?j - xs ! ?i) * ?g"
    by (simp add: interpolate_def Let_def)
  have "0 \<le> (xs ! ?j - xs ! ?i) * ?g" using d g0 by simp
  then show "xs ! ?i \<le> interpolate xs h" unfolding eq by linarith
  have "(xs ! ?j - xs ! ?i) * ?g \<le> (xs ! ?j - xs ! ?i) * 1"
    using d g1 by (intro mult_left_mono) simp_all
  then have "(xs ! ?j - xs ! ?i) * ?g \<le> xs ! ?j - xs ! ?i" by simp
  then show "interpolate xs h \<le> xs ! ?j" unfolding eq by linarith
qed

lemma interpolate_mono:
  assumes "sorted xs" "0 \<le> h1" "h1 \<le> h2" "h2 \<le> real (length xs - 1)" "xs \<noteq> []"
  shows "interpolate xs h1 \<le> interpolate xs h2"
proof -
  let ?i1 = "nat \<lfloor>h1\<rfloor>" and ?i2 = "nat \<lfloor>h2\<rfloor>"
  have le: "?i1 \<le> ?i2" using assms(3) by (simp add: floor_mono nat_mono)
  have h2: "0 \<le> h2" using assms(2,3) by simp
  have h1: "h1 \<le> real (length xs - 1)" using assms(3,4) by simp
  show ?thesis
  proof (cases "?i1 = ?i2")
    case True
    let ?j = "min (?i1 + 1) (length xs - 1)"
    have "real ?i1 \<le> real (length xs - 1)" using assms(2) h1 by linarith
    then have ij: "?i1 \<le> ?j" by simp
    have jlt: "?j < length xs" using assms(5) by (cases xs) auto
    from assms(1) ij jlt have d: "xs ! ?i1 \<le> xs ! ?j" by (rule sorted_nth_mono)
    have "(xs ! ?j - xs ! ?i1) * (h1 - real ?i1) \<le> (xs ! ?j - xs ! ?i1) * (h2 - real ?i1)"
      using d assms(3) by (intro mult_left_mono) simp_all
    then show ?thesis
      using True by (simp add: interpolate_def Let_def)
  next
    case False
    with le have lt: "?i1 + 1 \<le> ?i2" by simp
    have "real ?i2 \<le> h2" using h2 by simp
    then have "real ?i2 \<le> real (length xs - 1)" using assms(4) by linarith
    then have i2: "?i2 \<le> length xs - 1" by simp
    have i2lt: "?i2 < length xs" using i2 assms(5) by (cases xs) auto
    have "min (?i1 + 1) (length xs - 1) \<le> ?i2" using lt by simp
    with assms(1) have "xs ! min (?i1 + 1) (length xs - 1) \<le> xs ! ?i2"
      using i2lt by (intro sorted_nth_mono) simp_all
    moreover have "interpolate xs h1 \<le> xs ! min (?i1 + 1) (length xs - 1)"
      using assms(1,2) h1 assms(5) by (rule interpolate_bounds)
    moreover have "xs ! ?i2 \<le> interpolate xs h2"
      using assms(1) h2 assms(4,5) by (rule interpolate_bounds)
    ultimately show ?thesis by linarith
  qed
qed

lemma finite_values_no_nan:
  "NaN \<notin> set a \<Longrightarrow> length (finite_values a) = length a"
proof (induction a)
  case Nil
  show ?case by (simp add: finite_values_def)
next
  case (Cons v a)
  then show ?case by (cases v) (simp_all add: finite_values_def)
qed

lemma percentile_of_mono:
  assumes "a \<noteq> []" "NaN \<notin> set a" "0 \<le> lo" "lo \<le> hi" "hi \<le> 100"
  shows "\<exists>x y. percentile_of a lo = Inr (Fin x) \<and> percentile_of a hi = Inr (Fin y) \<and> x \<le> y"
proof -
  let ?xs = "sort (finite_values a)"
  let ?n = "real (length a - 1)"
  have len: "length ?xs = length a" using assms(2) by (simp add: finite_values_no_nan)
  have ne: "?xs \<noteq> []"
  proof
    assume "?xs = []"
    then have "length ?xs = 0" by (simp only: list.size)
    with len assms(1) show False by simp
  qed
  have n0: "0 \<le> ?n" by simp
  have 1: "0 \<le> lo / 100 * ?n" using assms(3) n0 by simp
  have 2: "lo / 100 * ?n \<le> hi / 100 * ?n"
    using assms(4) n0 by (intro mult_right_mono) simp_all
  have "hi / 100 * ?n \<le> 1 * ?n"
    using assms(5) n0 by (intro mult_right_mono) simp_all
  then have 3: "hi / 100 * ?n \<le> real (length ?xs - 1)"
    using assms(2) by (simp add: finite_values_no_nan)
  have "interpolate ?xs (lo / 100 * ?n) \<le> interpolate ?xs (hi / 100 * ?n)"
    using sorted_sort 1 2 3 ne by (rule interpolate_mono)
  then show ?thesis
    using assms(1,2) by (simp add: percentile_of_def)
qed

lemma percentile_of_nan: "NaN \<in> set a \<Longrightarrow> percentile_of a q = Inr NaN"
  by (auto simp: percentile_of_def)

lemma percentile_of_nonempty: "a \<noteq> [] \<Longrightarrow> \<exists>v. percentile_of a q = Inr v"
  by (simp add: percentile_of_def)

lemma replicate_facts:
  assumes "bootstrap L g ams distr dv arg = (Inr r, g')"
  shows "\<exists>ld new_ams. get_lmom_distr distr = Inr ld
           \<and> random_choice g ams (length ams) = (Inr new_ams, g')
           \<and> length new_ams = length ams \<and> set new_ams \<subseteq> set ams
           \<and> refit_and_calculate L new_ams distr ld dv arg = Inr r
           \<and> ((\<exists>e. get_fitted_distr L new_ams distr ld = Inl e) \<longrightarrow> r = NaN)"
proof -
  from bootstrap_Inr [OF assms] obtain ld new_ams where
    ld: "get_lmom_distr distr = Inr ld" and
    c: "random_choice g ams (length ams) = (Inr new_ams, g')" and
    r: "refit_and_calculate L new_ams distr ld dv arg = Inr r"
    by (elim conjE exE)
  from random_choice_draw [of g ams] obtain other where
    o: "random_choice g ams (length ams) = (Inr other, advance g (length ams))" and
    len: "length other = length ams" and sub: "set other \<subseteq> set ams"
    by (elim conjE exE)
  from c o have "other = new_ams" by (simp del: random_choice.simps)
  with len sub have l: "length new_ams = length ams" and s: "set new_ams \<subseteq> set ams"
    by simp_all
  have f: "(\<exists>e. get_fitted_distr L new_ams distr ld = Inl e) \<longrightarrow> r = NaN"
    using r by (auto dest: refit_and_calculate_fit_failure)
  show ?thesis
    by (intro exI [of _ ld] exI [of _ new_ams] conjI) (fact ld c l s r f)+
qed

lemma example_soft_library: "soft_library example_library"
  by (auto simp: soft_library_def example_library_def uniform_distr_def
      split: if_splits option.splits pyfloat.splits)

lemma round_half_even_nearest:
  "\<bar>x - of_int (round_half_even x)\<bar> \<le> 1 / 2
   \<and> (\<bar>x - of_int (round_half_even x)\<bar> = 1 / 2 \<longrightarrow> even (round_half_even x))"
proof -
  define f where "f = \<lfloor>x\<rfloor>"
  define d where "d = x - of_int f"
  have d: "0 \<le> d" "d < 1" unfolding d_def f_def by linarith+
  have x: "x = of_int f + d" unfolding d_def by simp
  have r: "round_half_even x
             = (if d < 1 / 2 then f else if 1 / 2 < d then f + 1 else if even f then f else f + 1)"
    unfolding round_half_even_def Let_def f_def d_def ..
  consider "d < 1 / 2" | "1 / 2 < d" | "d = 1 / 2" "even f" | "d = 1 / 2" "odd f"
    by linarith
  then show ?thesis
  proof cases
    case 1
    with r have v: "round_half_even x = f" by simp
    from 1 d x have "\<bar>x - of_int f\<bar> < 1 / 2" by linarith
    then show ?thesis unfolding v by simp
  next
    case 2
    with r have v: "round_half_even x = f + 1" by simp
    from 2 d x have "\<bar>x - of_int (f + 1)\<bar> < 1 / 2" by simp
    then show ?thesis unfolding v by simp
  next
    case 3
    with r have v: "round_half_even x = f" by simp
    from 3 x have "\<bar>x - of_int f\<bar> = 1 / 2" by simp
    with 3 show ?thesis unfolding v by simp
  next
    case 4
    with r have v: "round_half_even x = f + 1" by simp
    from 4 x have "\<bar>x - of_int (f + 1)\<bar> = 1 / 2" by simp
    with 4 show ?thesis unfolding v by simp
  qed
qed

lemma py_round_nearest:
  "\<exists>k. py_round (Fin x) n = Fin (of_int k / 10 ^ n)
       \<and> \<bar>x * 10 ^ n - of_int k\<bar> \<le> 1 / 2
       \<and> (\<bar>x * 10 ^ n - of_int k\<bar> = 1 / 2 \<longrightarrow> even k)"
  using round_half_even_nearest [of "x * 10 ^ n"]
  by (intro exI [of _ "round_half_even (x * 10 ^ n)"]) simp

section \<open>The return-metric calculator\<close>

text \<open>
  C10. A metric kind outside \<open>return_value\<close>, \<open>return_prob\<close>, \<open>return_period\<close> makes
  \<open>calculate_return\<close> fail at its final \<open>return result\<close>, the variable never having
  been assigned: it neither returns NaN nor validates the kind. \<open>bootstrap\<close> is the one
  that validates, and raises its \<open>ValueError\<close> before it draws anything.
\<close>

theorem calculate_return_unknown_kind:
  assumes "data_variable \<notin> set data_variables"
  shows "calculate_return fitted_distr data_variable arg_value
           = Inl (UnboundLocalError ''result'')
         \<and> bootstrap L g ams distr data_variable arg_value = (Inl invalid_data_variable, g)"
  using assms by (simp add: calculate_return_def bootstrap_def data_variables_def)

theorem calculate_return_unknown_kind_witness:
  "calculate_return (Some (uniform_distr 0 1)) ''return_level'' (Fin 10)
     = Inl (UnboundLocalError ''result'')
   \<and> bootstrap example_library (Rng (\<lambda>i. i) 0) [Fin 1, Fin 2] ''gev'' ''return_level'' (Fin 10)
     = (Inl invalid_data_variable, Rng (\<lambda>i. i) 0)"
  using calculate_return_unknown_kind [of "''return_level''"]
  by (simp add: data_variables_def)

text \<open>
  C1. On a fitted distribution, \<open>calculate_return\<close> computes: for \<open>return_value\<close> and a
  return period \<open>t\<close> (not zero), the quantile \<open>y\<close> at \<open>1 - 1 / t\<close> rounded to 5 decimals,
  that is \<open>k / 10^5\<close> for the integer \<open>k\<close> nearest to \<open>y * 10^5\<close>, the even one on a tie;
  for \<open>return_prob\<close>, one minus the distribution function at the argument, not rounded;
  for \<open>return_period\<close>, NaN when the distribution function is exactly 1 at the argument
  and otherwise \<open>- 1 / (p - 1)\<close> rounded to 3 decimals, that is \<open>k / 10^3\<close> for the integer
  \<open>k\<close> nearest to \<open>- 1 / (p - 1) * 10^3\<close>, the even one on a tie. A NaN from the
  distribution goes through each formula as NaN.
\<close>

theorem calculate_return_formulas:
  "(t \<noteq> 0 \<and> ppf fd (Fin (1 - 1 / t)) = Inr (Fin y) \<longrightarrow>
      (\<exists>k. calculate_return (Some fd) ''return_value'' (Fin t) = Inr (Fin (of_int k / 100000))
           \<and> \<bar>y * 100000 - of_int k\<bar> \<le> 1 / 2
           \<and> (\<bar>y * 100000 - of_int k\<bar> = 1 / 2 \<longrightarrow> even k)))
   \<and> (t \<noteq> 0 \<and> ppf fd (Fin (1 - 1 / t)) = Inr NaN \<longrightarrow>
      calculate_return (Some fd) ''return_value'' (Fin t) = Inr NaN)
   \<and> (cdf fd m = Inr (Fin c) \<longrightarrow>
      calculate_return (Some fd) ''return_prob'' m = Inr (Fin (1 - c)))
   \<and> (cdf fd m = Inr NaN \<longrightarrow>
      calculate_return (Some fd) ''return_prob'' m = Inr NaN
      \<and> calculate_return (Some fd) ''return_period'' m = Inr NaN)
   \<and> (cdf fd m = Inr (Fin 1) \<longrightarrow>
      calculate_return (Some fd) ''return_period'' m = Inr NaN)
   \<and> (p \<noteq> 1 \<and> cdf fd m = Inr (Fin p) \<longrightarrow>
      (\<exists>k. calculate_return (Some fd) ''return_period'' m = Inr (Fin (of_int k / 1000))
           \<and> \<bar>- 1 / (p - 1) * 1000 - of_int k\<bar> \<le> 1 / 2
           \<and> (\<bar>- 1 / (p - 1) * 1000 - of_int k\<bar> = 1 / 2 \<longrightarrow> even k)))"
proof (intro conjI impI)
  assume h: "t \<noteq> 0 \<and> ppf fd (Fin (1 - 1 / t)) = Inr (Fin y)"
  then have "calculate_return (Some fd) ''return_value'' (Fin t) = Inr (py_round (Fin y) 5)"
    by (simp add: calculate_return_def try_except_def bind_exn_def call_ppf_def
        del: py_round.simps)
  with py_round_nearest [of y 5]
  show "\<exists>k. calculate_return (Some fd) ''return_value'' (Fin t) = Inr (Fin (of_int k / 100000))
           \<and> \<bar>y * 100000 - of_int k\<bar> \<le> 1 / 2
           \<and> (\<bar>y * 100000 - of_int k\<bar> = 1 / 2 \<longrightarrow> even k)"
    by (simp del: py_round.simps)
next
  assume "t \<noteq> 0 \<and> ppf fd (Fin (1 - 1 / t)) = Inr NaN"
  then show "calculate_return (Some fd) ''return_value'' (Fin t) = Inr NaN"
    by (simp add: calculate_return_def try_except_def bind_exn_def call_ppf_def)
next
  assume "cdf fd m = Inr (Fin c)"
  then show "calculate_return (Some fd) ''return_prob'' m = Inr (Fin (1 - c))"
    by (simp add: calculate_return_def try_except_def bind_exn_def call_cdf_def)
next
  assume h: "cdf fd m = Inr NaN"
  then show "calculate_return (Some fd) ''return_prob'' m = Inr NaN"
    by (simp add: calculate_return_def try_except_def bind_exn_def call_cdf_def)
  from h show "calculate_return (Some fd) ''return_period'' m = Inr NaN"
    by (simp add: calculate_return_def try_except_def bind_exn_def call_cdf_def)
next
  assume "cdf fd m = Inr (Fin 1)"
  then show "calculate_return (Some fd) ''return_period'' m = Inr NaN"
    by (simp add: calculate_return_def try_except_def bind_exn_def call_cdf_def)
next
  assume h: "p \<noteq> 1 \<and> cdf fd m = Inr (Fin p)"
  then have "calculate_return (Some fd) ''return_period'' m
               = Inr (py_round (Fin (- 1 / (p - 1))) 3)"
    by (simp add: calculate_return_def try_except_def bind_exn_def call_cdf_def
        del: py_round.simps)
  with py_round_nearest [of "- 1 / (p - 1)" 3]
  show "\<exists>k. calculate_return (Some fd) ''return_period'' m = Inr (Fin (of_int k / 1000))
           \<and> \<bar>- 1 / (p - 1) * 1000 - of_int k\<bar> \<le> 1 / 2
           \<and> (\<bar>- 1 / (p - 1) * 1000 - of_int k\<bar> = 1 / 2 \<longrightarrow> even k)"
    by (simp del: py_round.simps)
qed

theorem calculate_return_formulas_witness:
  "calculate_return (Some (uniform_distr (1 / 3) 1)) ''return_value'' (Fin 10)
     = Inr (Fin (123333 / 100000))
   \<and> calculate_return (Some (uniform_distr (1 / 3) 1)) ''return_prob'' (Fin (7 / 12))
       = Inr (Fin (3 / 4))
   \<and> calculate_return (Some (uniform_distr (1 / 3) 1)) ''return_prob'' NaN = Inr NaN
   \<and> calculate_return (Some (uniform_distr (1 / 3) 1)) ''return_period'' NaN = Inr NaN
   \<and> calculate_return (Some (uniform_distr (1 / 3) 1)) ''return_period'' (Fin 2) = Inr NaN
   \<and> calculate_return (Some (uniform_distr (1 / 3) 1)) ''return_period'' (Fin (7 / 12))
       = Inr (Fin (1333 / 1000))"
proof -
  have a: "ppf (uniform_distr (1 / 3) 1) (Fin (1 - 1 / 10)) = Inr (Fin (37 / 30))"
    and b: "cdf (uniform_distr (1 / 3) 1) (Fin (7 / 12)) = Inr (Fin (1 / 4))"
    and c: "cdf (uniform_distr (1 / 3) 1) (Fin 2) = Inr (Fin 1)"
    and n: "cdf (uniform_distr (1 / 3) 1) NaN = Inr NaN"
    by (simp_all add: uniform_distr_def)
  note t1 = calculate_return_formulas
              [where t = 10 and fd = "uniform_distr (1 / 3) 1" and y = "37 / 30"
                 and m = "Fin (7 / 12)" and c = "1 / 4" and p = "1 / 4"]
  note t2 = calculate_return_formulas
              [where t = 10 and fd = "uniform_distr (1 / 3) 1" and y = "37 / 30"
                 and m = "Fin 2" and c = "1" and p = "1 / 4"]
  note t3 = calculate_return_formulas
              [where t = 10 and fd = "uniform_distr (1 / 3) 1" and y = "37 / 30"
                 and m = NaN and c = "1" and p = "1 / 4"]
  have ten: "(10::real) \<noteq> 0 \<and> ppf (uniform_distr (1 / 3) 1) (Fin (1 - 1 / 10)) = Inr (Fin (37 / 30))"
    using a by simp
  from t1 [THEN conjunct1, THEN mp, OF ten] obtain k :: int where
    k: "calculate_return (Some (uniform_distr (1 / 3) 1)) ''return_value'' (Fin 10)
          = Inr (Fin (of_int k / 100000))"
    and kb: "\<bar>(37 / 30 :: real) * 100000 - of_int k\<bar> \<le> 1 / 2"
    by (elim exE conjE)
  from kb have "123332 < k" "k < 123334" by linarith+
  then have "k = 123333" by simp
  with k have v: "calculate_return (Some (uniform_distr (1 / 3) 1)) ''return_value'' (Fin 10)
     = Inr (Fin (123333 / 100000))" by simp
  have quarter: "(1 / 4 :: real) \<noteq> 1 \<and> cdf (uniform_distr (1 / 3) 1) (Fin (7 / 12)) = Inr (Fin (1 / 4))"
    using b by simp
  from t1 [THEN conjunct2, THEN conjunct2, THEN conjunct2, THEN conjunct2, THEN conjunct2,
           THEN mp, OF quarter]
  obtain j :: int where
    j: "calculate_return (Some (uniform_distr (1 / 3) 1)) ''return_period'' (Fin (7 / 12))
          = Inr (Fin (of_int j / 1000))"
    and jb: "\<bar>- 1 / (1 / 4 - 1) * 1000 - (of_int j :: real)\<bar> \<le> 1 / 2"
    by (elim exE conjE)
  have e: "- 1 / (1 / 4 - 1) * 1000 = (4000 / 3 :: real)" by simp
  from jb [unfolded e] have "1332 < j" "j < 1334" by linarith+
  then have "j = 1333" by simp
  with j have r: "calculate_return (Some (uniform_distr (1 / 3) 1)) ''return_period'' (Fin (7 / 12))
       = Inr (Fin (1333 / 1000))" by simp
  have pr: "calculate_return (Some (uniform_distr (1 / 3) 1)) ''return_prob'' (Fin (7 / 12))
       = Inr (Fin (3 / 4))"
    using t1 [THEN conjunct2, THEN conjunct2, THEN conjunct1, THEN mp, OF b] by simp
  have nn: "calculate_return (Some (uniform_distr (1 / 3) 1)) ''return_prob'' NaN = Inr NaN
      \<and> calculate_return (Some (uniform_distr (1 / 3) 1)) ''return_period'' NaN = Inr NaN"
    by (rule t3 [THEN conjunct2, THEN conjunct2, THEN conjunct2, THEN conjunct1, THEN mp, OF n])
  have one: "calculate_return (Some (uniform_distr (1 / 3) 1)) ''return_period'' (Fin 2) = Inr NaN"
    by (rule t2 [THEN conjunct2, THEN conjunct2, THEN conjunct2, THEN conjunct2, THEN conjunct1,
                 THEN mp, OF c])
  from v pr nn one r show ?thesis by simp
qed

text \<open>
  C2, as the source has it. \<open>calculate_return\<close> fails softly for the three kinds: a
  missing fit, a division by zero, and any \<open>ValueError\<close>, \<open>ZeroDivisionError\<close> or
  \<open>AttributeError\<close> raised by the distribution give NaN. The \<open>return_period\<close> computation
  raises nothing of its own: it returns a value whenever the distribution function raises
  at most one of these three, and that value is a number exactly when the distribution
  function returned a number other than 1. So it is NaN when the probability is 1, when
  the probability is itself NaN, and when the distribution function raised.
\<close>

theorem calculate_return_fails_softly:
  "(dv \<in> set data_variables \<longrightarrow> calculate_return None dv arg = Inr NaN)
   \<and> (is_value_zero_attr e \<and> py_truediv (Fin 1) arg = Inr q \<and> ppf fd (py_sub (Fin 1) q) = Inl e \<longrightarrow>
        calculate_return (Some fd) ''return_value'' arg = Inr NaN)
   \<and> calculate_return fdo ''return_value'' (Fin 0) = Inr NaN
   \<and> (is_value_zero_attr e \<and> cdf fd arg = Inl e \<longrightarrow>
        calculate_return (Some fd) ''return_prob'' arg = Inr NaN
        \<and> calculate_return (Some fd) ''return_period'' arg = Inr NaN)
   \<and> ((\<forall>e'. call_cdf fdo arg = Inl e' \<longrightarrow> is_value_zero_attr e') \<longrightarrow>
        (\<exists>r. calculate_return fdo ''return_period'' arg = Inr r
             \<and> (r \<noteq> NaN \<longleftrightarrow> (\<exists>p. call_cdf fdo arg = Inr (Fin p) \<and> p \<noteq> 1))))
   \<and> (cdf fd arg = Inr pr \<longrightarrow>
        (\<exists>r. calculate_return (Some fd) ''return_period'' arg = Inr r
             \<and> (r = NaN \<longleftrightarrow> pr = Fin 1 \<or> pr = NaN)))"
proof (intro conjI impI)
  assume "dv \<in> set data_variables"
  then show "calculate_return None dv arg = Inr NaN"
    by (cases arg)
       (auto simp: data_variable_cases calculate_return_def try_except_def bind_exn_def
                   call_ppf_def call_cdf_def)
next
  assume "is_value_zero_attr e \<and> py_truediv (Fin 1) arg = Inr q \<and> ppf fd (py_sub (Fin 1) q) = Inl e"
  then show "calculate_return (Some fd) ''return_value'' arg = Inr NaN"
    by (simp add: calculate_return_def try_except_def bind_exn_def call_ppf_def)
next
  show "calculate_return fdo ''return_value'' (Fin 0) = Inr NaN"
    by (simp add: calculate_return_def try_except_def bind_exn_def)
next
  assume h: "is_value_zero_attr e \<and> cdf fd arg = Inl e"
  then show "calculate_return (Some fd) ''return_prob'' arg = Inr NaN"
    by (simp add: calculate_return_def try_except_def bind_exn_def call_cdf_def)
  from h show "calculate_return (Some fd) ''return_period'' arg = Inr NaN"
    by (simp add: calculate_return_def try_except_def bind_exn_def call_cdf_def)
next
  assume h: "\<forall>e'. call_cdf fdo arg = Inl e' \<longrightarrow> is_value_zero_attr e'"
  show "\<exists>r. calculate_return fdo ''return_period'' arg = Inr r
             \<and> (r \<noteq> NaN \<longleftrightarrow> (\<exists>p. call_cdf fdo arg = Inr (Fin p) \<and> p \<noteq> 1))"
  proof (cases "call_cdf fdo arg")
    case (Inl e')
    with h have "is_value_zero_attr e'" by simp
    with Inl show ?thesis
      by (simp add: calculate_return_def try_except_def bind_exn_def)
  next
    case (Inr p)
    then show ?thesis
      by (cases p) (simp_all add: calculate_return_def try_except_def bind_exn_def)
  qed
next
  assume "cdf fd arg = Inr pr"
  then show "\<exists>r. calculate_return (Some fd) ''return_period'' arg = Inr r
                 \<and> (r = NaN \<longleftrightarrow> pr = Fin 1 \<or> pr = NaN)"
    by (cases pr) (simp_all add: calculate_return_def try_except_def bind_exn_def call_cdf_def)
qed

theorem calculate_return_fails_softly_witness:
  "calculate_return None ''return_prob'' (Fin 3) = Inr NaN
   \<and> calculate_return (Some failing_distr) ''return_value'' (Fin 10) = Inr NaN
   \<and> calculate_return (Some failing_distr) ''return_value'' (Fin 0) = Inr NaN
   \<and> calculate_return (Some failing_distr) ''return_prob'' (Fin 3) = Inr NaN
   \<and> calculate_return (Some failing_distr) ''return_period'' (Fin 3) = Inr NaN
   \<and> calculate_return (Some (uniform_distr 0 1)) ''return_period'' (Fin 2) = Inr NaN
   \<and> calculate_return (Some (uniform_distr 0 1)) ''return_period'' NaN = Inr NaN
   \<and> (\<exists>r. calculate_return (Some (uniform_distr 0 1)) ''return_period'' (Fin (3 / 4)) = Inr r
          \<and> r \<noteq> NaN)"
proof -
  have a: "ppf failing_distr (py_sub (Fin 1) (Fin (1 / 10))) = Inl (ValueError ''domain error'')"
    and b: "cdf failing_distr (Fin 3) = Inl ZeroDivisionError"
    and c: "cdf (uniform_distr 0 1) (Fin 2) = Inr (Fin 1)"
    and n: "cdf (uniform_distr 0 1) NaN = Inr NaN"
    and d: "cdf (uniform_distr 0 1) (Fin (3 / 4)) = Inr (Fin (3 / 4))"
    by (simp_all add: failing_distr_def uniform_distr_def)
  note t1 = calculate_return_fails_softly
              [where dv = "''return_prob''" and arg = "Fin 3" and e = ZeroDivisionError
                 and q = "Fin (1 / 10)" and fd = failing_distr and fdo = "Some failing_distr"
                 and pr = NaN]
  note t2 = calculate_return_fails_softly
              [where dv = "''return_prob''" and arg = "Fin 10" and e = "ValueError ''domain error''"
                 and q = "Fin (1 / 10)" and fd = failing_distr and fdo = "Some failing_distr"
                 and pr = NaN]
  note t3 = calculate_return_fails_softly
              [where dv = "''return_prob''" and arg = "Fin 2" and e = ZeroDivisionError
                 and q = "Fin (1 / 2)" and fd = "uniform_distr 0 1" and fdo = None
                 and pr = "Fin 1"]
  note t4 = calculate_return_fails_softly
              [where dv = "''return_prob''" and arg = NaN and e = ZeroDivisionError
                 and q = NaN and fd = "uniform_distr 0 1" and fdo = None and pr = NaN]
  note t5 = calculate_return_fails_softly
              [where dv = "''return_prob''" and arg = "Fin (3 / 4)" and e = ZeroDivisionError
                 and q = "Fin (4 / 3)" and fd = "uniform_distr 0 1" and fdo = None
                 and pr = "Fin (3 / 4)"]
  note last = conjunct2 [THEN conjunct2, THEN conjunct2, THEN conjunct2, THEN conjunct2]
  have dvs: "''return_prob'' \<in> set data_variables" by (simp add: data_variables_def)
  have 1: "calculate_return None ''return_prob'' (Fin 3) = Inr NaN"
    by (rule t1 [THEN conjunct1, THEN mp, OF dvs])
  have ha: "is_value_zero_attr (ValueError ''domain error'')
            \<and> py_truediv (Fin 1) (Fin 10) = Inr (Fin (1 / 10))
            \<and> ppf failing_distr (py_sub (Fin 1) (Fin (1 / 10))) = Inl (ValueError ''domain error'')"
    using a by simp
  have 2: "calculate_return (Some failing_distr) ''return_value'' (Fin 10) = Inr NaN"
    by (rule t2 [THEN conjunct2, THEN conjunct1, THEN mp, OF ha])
  have 3: "calculate_return (Some failing_distr) ''return_value'' (Fin 0) = Inr NaN"
    by (rule t1 [THEN conjunct2, THEN conjunct2, THEN conjunct1])
  have hb: "is_value_zero_attr ZeroDivisionError \<and> cdf failing_distr (Fin 3) = Inl ZeroDivisionError"
    using b by simp
  have 4: "calculate_return (Some failing_distr) ''return_prob'' (Fin 3) = Inr NaN
           \<and> calculate_return (Some failing_distr) ''return_period'' (Fin 3) = Inr NaN"
    by (rule t1 [THEN conjunct2, THEN conjunct2, THEN conjunct2, THEN conjunct1, THEN mp, OF hb])
  from t3 [THEN last, THEN mp, OF c]
  have 5: "calculate_return (Some (uniform_distr 0 1)) ''return_period'' (Fin 2) = Inr NaN"
    by auto
  from t4 [THEN last, THEN mp, OF n]
  have 6: "calculate_return (Some (uniform_distr 0 1)) ''return_period'' NaN = Inr NaN"
    by auto
  from t5 [THEN last, THEN mp, OF d]
  have 7: "\<exists>r. calculate_return (Some (uniform_distr 0 1)) ''return_period'' (Fin (3 / 4)) = Inr r
          \<and> r \<noteq> NaN"
    by auto
  from 1 2 3 4 5 6 7 show ?thesis by simp
qed

text \<open>
  C2, as stated, fails in its last part: \<open>return_period\<close> also returns NaN when the
  computed probability is not 1.0. The distribution function of
  \<open>genpareto(c=-1, loc=0, scale=1)\<close> at NaN is NaN, which is not equal to 1.0, and the
  result is NaN; and where the distribution function raises a \<open>ZeroDivisionError\<close> the
  result is NaN with no probability computed at all.
\<close>

theorem return_period_nan_probability:
  "cdf (uniform_distr 0 1) NaN = Inr NaN
   \<and> \<not> py_eq NaN (Fin 1)
   \<and> calculate_return (Some (uniform_distr 0 1)) ''return_period'' NaN = Inr NaN
   \<and> cdf failing_distr (Fin 3) = Inl ZeroDivisionError
   \<and> calculate_return (Some failing_distr) ''return_period'' (Fin 3) = Inr NaN"
  by (simp add: calculate_return_def try_except_def bind_exn_def call_cdf_def
      uniform_distr_def failing_distr_def)

section \<open>The goodness-of-fit test at a point\<close>

text \<open>
  C9. For each of the five families, \<open>ks_stat\<close> returns \<open>(NaN, NaN)\<close> when fitting the
  sample fails or when the KS computation fails, the failure being a \<open>ValueError\<close> or a
  \<open>ZeroDivisionError\<close> (the classes the source names); otherwise it returns the
  D-statistic and the p-value that \<open>kstest\<close> gives for the sample against the family
  with the fitted parameters.
\<close>

theorem ks_stat_soft_failure:
  assumes "(distr, scipy_name, keys) \<in> set kstest_arguments"
  shows "(is_value_zero e \<and> get_fitted_distr L ams distr lmom_distr = Inl e \<longrightarrow>
            ks_stat L distr lmom_distr ams = Inr (NaN, NaN))
         \<and> (is_value_zero e \<and> get_fitted_distr L ams distr lmom_distr = Inr (lmoments, fd)
              \<and> getitems lmoments keys = Inr args \<and> kstest L ams scipy_name args = Inl e \<longrightarrow>
            ks_stat L distr lmom_distr ams = Inr (NaN, NaN))
         \<and> (get_fitted_distr L ams distr lmom_distr = Inr (lmoments, fd)
              \<and> getitems lmoments keys = Inr args
              \<and> kstest L ams scipy_name args = Inr (d_statistic, p_value) \<longrightarrow>
            ks_stat L distr lmom_distr ams = Inr (d_statistic, p_value))"
  unfolding ks_stat_ks_try [OF assms]
  by (simp add: ks_try_def try_except_def bind_exn_def)

theorem ks_stat_soft_failure_witness:
  "ks_stat example_library ''gev'' Ldistr_gev [Fin 1, Fin 1] = Inr (NaN, NaN)
   \<and> ks_stat example_library ''gev'' Ldistr_gev [Fin 1, Fin 2] = Inr (NaN, NaN)
   \<and> ks_stat example_library ''gev'' Ldistr_gev [Fin 1, Fin 2, Fin 3]
       = Inr (Fin (1 / 4), Fin (1 / 2))"
proof -
  have t: "(''gev'', ''genextreme'', [''c'', ''loc'', ''scale'']) \<in> set kstest_arguments"
    by (simp add: kstest_arguments_def)
  have g: "getitems [(''c'', Fin (- 1)), (''skew'', Fin 0), (''loc'', Fin 1), (''scale'', Fin 1)]
             [''c'', ''loc'', ''scale''] = Inr [Fin (- 1), Fin 1, Fin 1]"
    by (simp add: bind_exn_def)
  have k2: "kstest example_library [Fin 1, Fin 2] ''genextreme'' [Fin (- 1), Fin 1, Fin 1]
              = Inl ZeroDivisionError"
    and k3: "kstest example_library [Fin 1, Fin 2, Fin 3] ''genextreme'' [Fin (- 1), Fin 1, Fin 1]
              = Inr (Fin (1 / 4), Fin (1 / 2))"
    by (simp_all add: example_library_def)
  let ?lm = "[(''c'', Fin (- 1)), (''skew'', Fin 0), (''loc'', Fin 1), (''scale'', Fin 1)]"
  show ?thesis
    using ks_stat_soft_failure [OF t, where e = "ValueError ''L-Moments invalid''"
            and L = example_library and ams = "[Fin 1, Fin 1]" and lmom_distr = Ldistr_gev]
          ks_stat_soft_failure [OF t, where e = ZeroDivisionError
            and L = example_library and ams = "[Fin 1, Fin 2]" and lmom_distr = Ldistr_gev
            and lmoments = ?lm and fd = "uniform_distr 1 1"
            and args = "[Fin (- 1), Fin 1, Fin 1]"]
          ks_stat_soft_failure [OF t, where e = ZeroDivisionError
            and L = example_library and ams = "[Fin 1, Fin 2, Fin 3]" and lmom_distr = Ldistr_gev
            and lmoments = ?lm and fd = "uniform_distr 1 1"
            and args = "[Fin (- 1), Fin 1, Fin 1]"
            and d_statistic = "Fin (1 / 4)" and p_value = "Fin (1 / 2)"]
          example_fit g k2 k3
    by (simp del: getitems.simps)
qed

section \<open>Metadata of the datasets derived from a fit\<close>

text \<open>
  C7. Every dataset that \<open>get_lmoments\<close>, \<open>get_ks_stat\<close>, \<open>get_return_value\<close>,
  \<open>get_return_prob\<close> or \<open>get_return_period\<close> returns carries the metadata mapping of the
  input series, with the family name stored under the key \<open>distribution\<close>.
\<close>

theorem fit_datasets_carry_metadata:
  "(get_lmoments L ams distr mp = Inr ds1 \<longrightarrow>
      ds_attrs ds1 = (da_attrs ams)(''distribution'' \<mapsto> distr))
   \<and> (get_ks_stat L ams distr mp = Inr ds2 \<longrightarrow>
      ds_attrs ds2 = (da_attrs ams)(''distribution'' \<mapsto> distr))
   \<and> (get_return_value L g ams arg distr runs lo hi mp = (Inr ds3, g3) \<longrightarrow>
      ds_attrs ds3 = (da_attrs ams)(''distribution'' \<mapsto> distr))
   \<and> (get_return_prob L g ams arg distr runs lo hi mp = (Inr ds4, g4) \<longrightarrow>
      ds_attrs ds4 = (da_attrs ams)(''distribution'' \<mapsto> distr))
   \<and> (get_return_period L g ams arg distr runs lo hi mp = (Inr ds5, g5) \<longrightarrow>
      ds_attrs ds5 = (da_attrs ams)(''distribution'' \<mapsto> distr))"
proof (intro conjI impI)
  assume "get_lmoments L ams distr mp = Inr ds1"
  then show "ds_attrs ds1 = (da_attrs ams)(''distribution'' \<mapsto> distr)"
    by (auto simp: get_lmoments_def bind_exn_def split: sum.splits)
next
  assume "get_ks_stat L ams distr mp = Inr ds2"
  then show "ds_attrs ds2 = (da_attrs ams)(''distribution'' \<mapsto> distr)"
    by (auto simp: get_ks_stat_def bind_exn_def split: sum.splits)
next
  assume "get_return_value L g ams arg distr runs lo hi mp = (Inr ds3, g3)"
  then show "ds_attrs ds3 = (da_attrs ams)(''distribution'' \<mapsto> distr)"
    by (auto simp: get_return_value_def split: sum.splits prod.splits)
next
  assume "get_return_prob L g ams arg distr runs lo hi mp = (Inr ds4, g4)"
  then show "ds_attrs ds4 = (da_attrs ams)(''distribution'' \<mapsto> distr)"
    by (auto simp: get_return_prob_def split: sum.splits prod.splits)
next
  assume "get_return_period L g ams arg distr runs lo hi mp = (Inr ds5, g5)"
  then show "ds_attrs ds5 = (da_attrs ams)(''distribution'' \<mapsto> distr)"
    by (auto simp: get_return_period_def split: sum.splits prod.splits)
qed

theorem fit_datasets_carry_metadata_witness:
  "(\<exists>ds. get_lmoments example_library example_ams ''gev'' True = Inr ds
         \<and> ds_attrs ds = [''units'' \<mapsto> ''K'', ''distribution'' \<mapsto> ''gev''])
   \<and> (\<exists>ds. get_ks_stat example_library example_ams ''gev'' True = Inr ds
         \<and> ds_attrs ds = [''units'' \<mapsto> ''K'', ''distribution'' \<mapsto> ''gev''])
   \<and> (\<exists>ds. get_return_value example_library (Rng rotating 0) example_ams (Fin 10) ''gev'' 2
               (5 / 2) (195 / 2) True = (Inr ds, Rng rotating 6)
         \<and> ds_attrs ds = [''units'' \<mapsto> ''K'', ''distribution'' \<mapsto> ''gev''])
   \<and> (\<exists>ds. get_return_prob example_library (Rng stuck 0) example_ams (Fin (3 / 2)) ''gev'' 2
               (5 / 2) (195 / 2) True = (Inr ds, Rng stuck 6)
         \<and> ds_attrs ds = [''units'' \<mapsto> ''K'', ''distribution'' \<mapsto> ''gev''])
   \<and> (\<exists>ds. get_return_period example_library (Rng stuck 0) example_ams (Fin (3 / 2)) ''gev'' 2
               (5 / 2) (195 / 2) True = (Inr ds, Rng stuck 6)
         \<and> ds_attrs ds = [''units'' \<mapsto> ''K'', ''distribution'' \<mapsto> ''gev''])"
proof -
  have attrs: "(da_attrs example_ams)(''distribution'' \<mapsto> ''gev'')
                 = [''units'' \<mapsto> ''K'', ''distribution'' \<mapsto> ''gev'']"
    by (simp add: example_ams_def)
  obtain d1 d2 d3 d4 d5 where
    d1: "get_lmoments example_library example_ams ''gev'' True = Inr d1" and
    d2: "get_ks_stat example_library example_ams ''gev'' True = Inr d2" and
    d3: "get_return_value example_library (Rng rotating 0) example_ams (Fin 10) ''gev'' 2
           (5 / 2) (195 / 2) True = (Inr d3, Rng rotating 6)" and
    d4: "get_return_prob example_library (Rng stuck 0) example_ams (Fin (3 / 2)) ''gev'' 2
           (5 / 2) (195 / 2) True = (Inr d4, Rng stuck 6)" and
    d5: "get_return_period example_library (Rng stuck 0) example_ams (Fin (3 / 2)) ''gev'' 2
           (5 / 2) (195 / 2) True = (Inr d5, Rng stuck 6)"
    using example_datasets by blast
  show ?thesis
    using fit_datasets_carry_metadata [of example_library example_ams "''gev''" True d1 d2
            "Rng rotating 0" "Fin 10" 2 "5 / 2" "195 / 2" d3 "Rng rotating 6"]
          fit_datasets_carry_metadata [of example_library example_ams "''gev''" True d1 d2
            "Rng stuck 0" "Fin (3 / 2)" 2 "5 / 2" "195 / 2" _ _ d4 "Rng stuck 6" d5 "Rng stuck 6"]
          d1 d2 d3 d4 d5 attrs
    by simp
qed

section \<open>Exceedance counts\<close>

text \<open>
  C5. With \<open>period_length = "1year"\<close> and \<open>threshold_direction = "above"\<close>,
  \<open>get_exceedance_events\<close> flags exactly the entries strictly greater than the threshold
  and, on a series that has entries, \<open>get_exceedance_count\<close> returns, for each calendar
  year of the series in ascending order, the number of flagged entries of that year. A
  series over three years with 5, 0 and 12 values above the threshold gives the counts
  5, 0 and 12. On a series without entries the grouping by year raises.
\<close>

theorem exceedance_count_per_year:
  "get_exceedance_events da thr ''above'' None
     = ([Compare ''>''], Inr (map (\<lambda>e. (fst e, py_gt (snd e) thr)) da))
   \<and> (da \<noteq> [] \<longrightarrow>
        get_exceedance_count da thr ''1year'' ''above'' None None None
          = ([Compare ''>'', Groupby_sum ''time.year''],
             Inr (map (\<lambda>y. (y, length (filter (\<lambda>e. year_of (fst e) = y \<and> py_gt (snd e) thr)
                                              da)))
                      (sort (remdups (map (\<lambda>e. year_of (fst e)) da))))))
   \<and> get_exceedance_count [] thr ''1year'' ''above'' None None None
        = ([Compare ''>''], Inl (ValueError ''year must not be empty''))
   \<and> (y1 < y2 \<and> y2 < y3 \<and> set (map (\<lambda>e. year_of (fst e)) da) = {y1, y2, y3}
        \<and> length (filter (\<lambda>e. year_of (fst e) = y1 \<and> py_gt (snd e) thr) da) = 5
        \<and> length (filter (\<lambda>e. year_of (fst e) = y2 \<and> py_gt (snd e) thr) da) = 0
        \<and> length (filter (\<lambda>e. year_of (fst e) = y3 \<and> py_gt (snd e) thr) da) = 12 \<longrightarrow>
      get_exceedance_count da thr ''1year'' ''above'' None None None
        = ([Compare ''>'', Groupby_sum ''time.year''], Inr [(y1, 5), (y2, 0), (y3, 12)]))"
proof (intro conjI impI)
  show ev: "get_exceedance_events da thr ''above'' None
     = ([Compare ''>''], Inr (map (\<lambda>e. (fst e, py_gt (snd e) thr)) da))" for da
    by (simp add: get_exceedance_events_def apply_groupby_def)
  show cnt: "get_exceedance_count da thr ''1year'' ''above'' None None None
          = ([Compare ''>'', Groupby_sum ''time.year''],
             Inr (map (\<lambda>y. (y, length (filter (\<lambda>e. year_of (fst e) = y \<and> py_gt (snd e) thr)
                                              da)))
                      (sort (remdups (map (\<lambda>e. year_of (fst e)) da)))))"
    if "da \<noteq> []" for da
    using that by (simp add: get_exceedance_count_def ev groupby_sum_flags)
  show "get_exceedance_count [] thr ''1year'' ''above'' None None None
        = ([Compare ''>''], Inl (ValueError ''year must not be empty''))"
    by (simp add: get_exceedance_count_def ev groupby_sum_def)
  assume h: "y1 < y2 \<and> y2 < y3 \<and> set (map (\<lambda>e. year_of (fst e)) da) = {y1, y2, y3}
        \<and> length (filter (\<lambda>e. year_of (fst e) = y1 \<and> py_gt (snd e) thr) da) = 5
        \<and> length (filter (\<lambda>e. year_of (fst e) = y2 \<and> py_gt (snd e) thr) da) = 0
        \<and> length (filter (\<lambda>e. year_of (fst e) = y3 \<and> py_gt (snd e) thr) da) = 12"
  then have ne: "da \<noteq> []" by auto
  from h have "sort (remdups (map (\<lambda>e. year_of (fst e)) da)) = [y1, y2, y3]"
    by (intro sort_remdups_three) simp_all
  with h show "get_exceedance_count da thr ''1year'' ''above'' None None None
        = ([Compare ''>'', Groupby_sum ''time.year''], Inr [(y1, 5), (y2, 0), (y3, 12)])"
    by (simp add: cnt [OF ne])
qed

theorem exceedance_count_per_year_witness:
  "get_exceedance_count example_da (Fin 30) ''1year'' ''above'' None None None
     = ([Compare ''>'', Groupby_sum ''time.year''], Inr [(2001, 5), (2002, 0), (2003, 12)])
   \<and> get_exceedance_count [] (Fin 30) ''1year'' ''above'' None None None
     = ([Compare ''>''], Inl (ValueError ''year must not be empty''))"
proof -
  note t = exceedance_count_per_year [of example_da "Fin 30" 2001 2002 2003]
  have hyp: "(2001::nat) < 2002 \<and> (2002::nat) < 2003
        \<and> set (map (\<lambda>e. year_of (fst e)) example_da) = {2001, 2002, 2003}
        \<and> length (filter (\<lambda>e. year_of (fst e) = 2001 \<and> py_gt (snd e) (Fin 30)) example_da) = 5
        \<and> length (filter (\<lambda>e. year_of (fst e) = 2002 \<and> py_gt (snd e) (Fin 30)) example_da) = 0
        \<and> length (filter (\<lambda>e. year_of (fst e) = 2003 \<and> py_gt (snd e) (Fin 30)) example_da) = 12"
    using example_da_years by simp
  show ?thesis
    by (intro conjI)
       (fact t [THEN conjunct2, THEN conjunct2, THEN conjunct2, THEN mp, OF hyp]
             t [THEN conjunct2, THEN conjunct2, THEN conjunct1])+
qed

section \<open>Configuration errors\<close>

text \<open>
  C3, as the source has it. Every configuration error is a \<open>ValueError\<close>. An unknown
  distribution name, an invalid extremes type, an invalid threshold direction and a
  duration or smoothing option raise before any array operation and before any random
  draw. An unimplemented \<open>groupby\<close> raises after the threshold comparison has been
  evaluated, and an unimplemented \<open>period_length\<close> raises after the exceedance events
  have been computed. On a series without entries that is grouped by day, the grouping
  raises before \<open>period_length\<close> is looked at.
\<close>

theorem configuration_errors:
  "(distr \<notin> set distrs \<longrightarrow>
      get_lmom_distr distr = Inl invalid_distr
      \<and> get_lmoments L ams distr mp = Inl invalid_distr
      \<and> get_ks_stat L ams distr mp = Inl invalid_distr
      \<and> get_return_value L g ams arg distr runs lo hi mp = (Inl invalid_distr, g)
      \<and> get_return_prob L g ams arg distr runs lo hi mp = (Inl invalid_distr, g)
      \<and> get_return_period L g ams arg distr runs lo hi mp = (Inl invalid_distr, g)
      \<and> (dv \<in> set data_variables \<longrightarrow>
            bootstrap L g xs distr dv arg = (Inl invalid_distr, g)))
   \<and> (extremes_type \<notin> set extremes_types \<longrightarrow>
      (\<exists>msg. get_ams L s extremes_type = ([], Inl (ValueError msg))))
   \<and> (direction \<noteq> ''above'' \<and> direction \<noteq> ''below'' \<longrightarrow>
      (\<exists>msg. get_exceedance_events da thr direction groupby = ([], Inl (ValueError msg))
             \<and> get_exceedance_count da thr period direction None groupby None
                 = ([], Inl (ValueError msg))))
   \<and> (duration \<noteq> None \<or> smoothing \<noteq> None \<longrightarrow>
      (\<exists>msg. get_exceedance_count da thr period direction duration groupby smoothing
                = ([], Inl (ValueError msg))))
   \<and> ((direction = ''above'' \<or> direction = ''below'') \<and> gb \<noteq> ''1day'' \<longrightarrow>
      (\<exists>op msg. get_exceedance_events da thr direction (Some gb)
                   = ([Compare op], Inl (ValueError msg))
                \<and> get_exceedance_count da thr period direction None (Some gb) None
                   = ([Compare op], Inl (ValueError msg))))
   \<and> ((direction = ''above'' \<or> direction = ''below'')
        \<and> (groupby = None \<or> groupby = Some ''1day'' \<and> da \<noteq> [])
        \<and> period \<noteq> ''1year'' \<longrightarrow>
      (\<exists>op rest events msg.
          get_exceedance_events da thr direction groupby = (Compare op # rest, Inr events)
          \<and> get_exceedance_count da thr period direction None groupby None
              = (Compare op # rest, Inl (ValueError msg))))
   \<and> (direction = ''above'' \<or> direction = ''below'' \<longrightarrow>
      (\<exists>op msg.
          get_exceedance_events [] thr direction (Some ''1day'')
            = ([Compare op], Inl (ValueError msg))
          \<and> get_exceedance_count [] thr period direction None (Some ''1day'') None
              = ([Compare op], Inl (ValueError msg))))"
proof (intro conjI impI)
  assume d: "distr \<notin> set distrs"
  then show r: "get_lmom_distr distr = Inl invalid_distr"
    by (simp add: get_lmom_distr_def)
  show "get_lmoments L ams distr mp = Inl invalid_distr"
    by (simp add: get_lmoments_def r bind_exn_def)
  show "get_ks_stat L ams distr mp = Inl invalid_distr"
    by (simp add: get_ks_stat_def r bind_exn_def)
  show "get_return_value L g ams arg distr runs lo hi mp = (Inl invalid_distr, g)"
    by (simp add: get_return_value_def r)
  show "get_return_prob L g ams arg distr runs lo hi mp = (Inl invalid_distr, g)"
    by (simp add: get_return_prob_def r)
  show "get_return_period L g ams arg distr runs lo hi mp = (Inl invalid_distr, g)"
    by (simp add: get_return_period_def r)
  assume "dv \<in> set data_variables"
  then show "bootstrap L g xs distr dv arg = (Inl invalid_distr, g)"
    by (simp add: bootstrap_def r)
next
  assume "extremes_type \<notin> set extremes_types"
  then show "\<exists>msg. get_ams L s extremes_type = ([], Inl (ValueError msg))"
    by (simp add: get_ams_def)
next
  assume d: "direction \<noteq> ''above'' \<and> direction \<noteq> ''below''"
  then show "\<exists>msg. get_exceedance_events da thr direction groupby = ([], Inl (ValueError msg))
             \<and> get_exceedance_count da thr period direction None groupby None
                 = ([], Inl (ValueError msg))"
    by (simp add: get_exceedance_events_def get_exceedance_count_def)
next
  assume "duration \<noteq> None \<or> smoothing \<noteq> None"
  then show "\<exists>msg. get_exceedance_count da thr period direction duration groupby smoothing
                = ([], Inl (ValueError msg))"
    by (auto simp: get_exceedance_count_def)
next
  assume "(direction = ''above'' \<or> direction = ''below'') \<and> gb \<noteq> ''1day''"
  then show "\<exists>op msg. get_exceedance_events da thr direction (Some gb)
                   = ([Compare op], Inl (ValueError msg))
                \<and> get_exceedance_count da thr period direction None (Some gb) None
                   = ([Compare op], Inl (ValueError msg))"
    by (auto simp: get_exceedance_events_def get_exceedance_count_def apply_groupby_def)
next
  assume "(direction = ''above'' \<or> direction = ''below'')
        \<and> (groupby = None \<or> groupby = Some ''1day'' \<and> da \<noteq> [])
        \<and> period \<noteq> ''1year''"
  then show "\<exists>op rest events msg.
          get_exceedance_events da thr direction groupby = (Compare op # rest, Inr events)
          \<and> get_exceedance_count da thr period direction None groupby None
              = (Compare op # rest, Inl (ValueError msg))"
    by (auto simp: get_exceedance_events_def get_exceedance_count_def apply_groupby_def
        group_by_day_def groupby_sum_def bind_exn_def)
next
  assume "direction = ''above'' \<or> direction = ''below''"
  then show "\<exists>op msg.
          get_exceedance_events [] thr direction (Some ''1day'')
            = ([Compare op], Inl (ValueError msg))
          \<and> get_exceedance_count [] thr period direction None (Some ''1day'') None
              = ([Compare op], Inl (ValueError msg))"
    by (auto simp: get_exceedance_events_def get_exceedance_count_def apply_groupby_def
        group_by_day_def groupby_sum_def bind_exn_def)
qed

theorem configuration_errors_witness:
  "get_lmom_distr ''normal'' = Inl invalid_distr
   \<and> get_lmoments example_library example_ams ''normal'' True = Inl invalid_distr
   \<and> get_ks_stat example_library example_ams ''normal'' True = Inl invalid_distr
   \<and> get_return_value example_library (Rng rotating 0) example_ams (Fin 10) ''normal'' 2
        (5 / 2) (195 / 2) True = (Inl invalid_distr, Rng rotating 0)
   \<and> get_return_prob example_library (Rng rotating 0) example_ams (Fin 10) ''normal'' 2
        (5 / 2) (195 / 2) True = (Inl invalid_distr, Rng rotating 0)
   \<and> get_return_period example_library (Rng rotating 0) example_ams (Fin 10) ''normal'' 2
        (5 / 2) (195 / 2) True = (Inl invalid_distr, Rng rotating 0)
   \<and> bootstrap example_library (Rng rotating 0) [Fin 1, Fin 2, Fin 3] ''normal''
        ''return_value'' (Fin 10) = (Inl invalid_distr, Rng rotating 0)
   \<and> (\<exists>msg. get_ams example_library example_series ''min'' = ([], Inl (ValueError msg)))
   \<and> (\<exists>msg. get_exceedance_events example_da (Fin 30) ''over'' None
               = ([], Inl (ValueError msg))
             \<and> get_exceedance_count example_da (Fin 30) ''1month'' ''over'' None None None
               = ([], Inl (ValueError msg)))
   \<and> (\<exists>msg. get_exceedance_count example_da (Fin 30) ''1month'' ''over'' (Some ''3days'')
                None None = ([], Inl (ValueError msg)))
   \<and> (\<exists>op msg. get_exceedance_events example_da (Fin 30) ''above'' (Some ''1week'')
                  = ([Compare op], Inl (ValueError msg))
                \<and> get_exceedance_count example_da (Fin 30) ''1month'' ''above'' None
                    (Some ''1week'') None = ([Compare op], Inl (ValueError msg)))
   \<and> (\<exists>op rest events msg.
          get_exceedance_events example_da (Fin 30) ''above'' None
            = (Compare op # rest, Inr events)
          \<and> get_exceedance_count example_da (Fin 30) ''1month'' ''above'' None None None
              = (Compare op # rest, Inl (ValueError msg)))
   \<and> (\<exists>op msg. get_exceedance_events [] (Fin 30) ''above'' (Some ''1day'')
                  = ([Compare op], Inl (ValueError msg))
                \<and> get_exceedance_count [] (Fin 30) ''1month'' ''above'' None (Some ''1day'')
                    None = ([Compare op], Inl (ValueError msg)))"
proof -
  note t = configuration_errors [where distr = "''normal''" and L = example_library
      and ams = example_ams and mp = True and g = "Rng rotating 0" and arg = "Fin 10"
      and runs = 2 and lo = "5 / 2" and hi = "195 / 2" and dv = "''return_value''"
      and xs = "[Fin 1, Fin 2, Fin 3]" and extremes_type = "''min''" and s = example_series
      and da = example_da and thr = "Fin 30" and period = "''1month''"
      and duration = "Some ''3days''" and smoothing = None and gb = "''1week''"]
  have h1: "''normal'' \<notin> set distrs" "''return_value'' \<in> set data_variables"
    "''min'' \<notin> set extremes_types"
    by (simp_all add: distrs_def data_variables_def extremes_types_def)
  note a = t [where direction = "''over''" and groupby = None]
  note b = t [where direction = "''above''" and groupby = None]
  show ?thesis
    using a b h1 by simp
qed

text \<open>
  C3, as stated, fails: with \<open>period_length = "1month"\<close> the error is raised once the
  threshold comparison over the data has been evaluated.
\<close>

theorem period_length_checked_late:
  "get_exceedance_count example_da (Fin 30) ''1month'' ''above'' None None None
     = ([Compare ''>''],
        Inl (ValueError (''Other period_length options not yet implemented. Please use ''
                         @ [CHR 0x27] @ ''1year'' @ [CHR 0x27] @ ''.'')))
   \<and> fst (get_exceedance_count example_da (Fin 30) ''1month'' ''above'' None None None) \<noteq> []"
  by (simp add: get_exceedance_count_def get_exceedance_events_def apply_groupby_def)

section \<open>The bootstrap confidence interval\<close>

text \<open>
  C4. When \<open>conf_int\<close> has collected its outcomes, there are exactly \<open>runs\<close> of them; the
  \<open>i\<close>-th is the return metric of a refit to a resample drawn with replacement, of the
  size of the sample, from the generator state left by the \<open>i\<close> replicates before it, and
  it is NaN when that refit fails. What \<open>conf_int\<close> returns is \<open>np.percentile\<close> of the whole
  collection at the two bounds: with at least one run the two percentiles, which are NaN
  as soon as one outcome is NaN; with no run the \<open>IndexError\<close> of the empty collection.
  In an environment that raises only the classes the source catches, the outcomes are
  always collected.
\<close>

theorem conf_int_bootstrap_replicates:
  "(bootstrap_loop L g ams distr dv arg runs [] = (Inr vals, g') \<longrightarrow>
      length vals = runs \<and> g' = advance g (runs * length ams)
      \<and> (\<forall>i<runs. \<exists>ld new_ams.
            get_lmom_distr distr = Inr ld
            \<and> random_choice (advance g (i * length ams)) ams (length ams)
                = (Inr new_ams, advance g (Suc i * length ams))
            \<and> length new_ams = length ams \<and> set new_ams \<subseteq> set ams
            \<and> refit_and_calculate L new_ams distr ld dv arg = Inr (vals ! i)
            \<and> ((\<exists>e. get_fitted_distr L new_ams distr ld = Inl e) \<longrightarrow> vals ! i = NaN))
      \<and> conf_int L g ams distr dv arg runs lo hi
          = (bind_exn (np_percentile vals [lo, hi]) (\<lambda>a. Inr (a ! 0, a ! 1)), g')
      \<and> (0 < runs \<and> 0 \<le> lo \<and> lo \<le> 100 \<and> 0 \<le> hi \<and> hi \<le> 100 \<longrightarrow>
            (\<exists>lower upper.
                percentile_of vals lo = Inr lower \<and> percentile_of vals hi = Inr upper
                \<and> conf_int L g ams distr dv arg runs lo hi = (Inr (lower, upper), g')))
      \<and> (NaN \<in> set vals \<and> 0 \<le> lo \<and> lo \<le> 100 \<and> 0 \<le> hi \<and> hi \<le> 100 \<longrightarrow>
            conf_int L g ams distr dv arg runs lo hi = (Inr (NaN, NaN), g'))
      \<and> (runs = 0 \<and> 0 \<le> lo \<and> lo \<le> 100 \<and> 0 \<le> hi \<and> hi \<le> 100 \<longrightarrow>
            (\<exists>msg. conf_int L g ams distr dv arg runs lo hi = (Inl (IndexError msg), g'))))
   \<and> (soft_library L \<and> dv \<in> set data_variables \<and> distr \<in> set distrs \<longrightarrow>
        (\<exists>out. bootstrap_loop L g ams distr dv arg runs []
                 = (Inr out, advance g (runs * length ams))))"
proof (intro conjI impI)
  assume loop: "bootstrap_loop L g ams distr dv arg runs [] = (Inr vals, g')"
  from bootstrap_loop_Inr [OF loop] obtain vs where
    g': "g' = advance g (runs * length ams)" and
    vs: "vals = [] @ vs" and len: "length vs = runs" and
    each: "\<forall>i<runs. bootstrap L (advance g (i * length ams)) ams distr dv arg
                      = (Inr (vs ! i), advance g (Suc i * length ams))"
    by (elim conjE exE)
  from vs have vals: "vs = vals" by simp
  show length: "length vals = runs" using len vals by simp
  show "g' = advance g (runs * length ams)" by (fact g')
  show "\<forall>i<runs. \<exists>ld new_ams.
            get_lmom_distr distr = Inr ld
            \<and> random_choice (advance g (i * length ams)) ams (length ams)
                = (Inr new_ams, advance g (Suc i * length ams))
            \<and> length new_ams = length ams \<and> set new_ams \<subseteq> set ams
            \<and> refit_and_calculate L new_ams distr ld dv arg = Inr (vals ! i)
            \<and> ((\<exists>e. get_fitted_distr L new_ams distr ld = Inl e) \<longrightarrow> vals ! i = NaN)"
  proof (intro allI impI)
    fix i assume "i < runs"
    with each vals
    have "bootstrap L (advance g (i * length ams)) ams distr dv arg
            = (Inr (vals ! i), advance g (Suc i * length ams))"
      by simp
    then show "\<exists>ld new_ams.
            get_lmom_distr distr = Inr ld
            \<and> random_choice (advance g (i * length ams)) ams (length ams)
                = (Inr new_ams, advance g (Suc i * length ams))
            \<and> length new_ams = length ams \<and> set new_ams \<subseteq> set ams
            \<and> refit_and_calculate L new_ams distr ld dv arg = Inr (vals ! i)
            \<and> ((\<exists>e. get_fitted_distr L new_ams distr ld = Inl e) \<longrightarrow> vals ! i = NaN)"
      by (rule replicate_facts)
  qed
  show c: "conf_int L g ams distr dv arg runs lo hi
          = (bind_exn (np_percentile vals [lo, hi]) (\<lambda>a. Inr (a ! 0, a ! 1)), g')"
    by (simp add: conf_int_def loop)
  {
    assume h: "0 < runs \<and> 0 \<le> lo \<and> lo \<le> 100 \<and> 0 \<le> hi \<and> hi \<le> 100"
    with length have ne: "vals \<noteq> []" by auto
    from percentile_of_nonempty [OF ne] obtain lower upper where
      l: "percentile_of vals lo = Inr lower" and u: "percentile_of vals hi = Inr upper"
      by metis
    from h have "conf_int L g ams distr dv arg runs lo hi = (Inr (lower, upper), g')"
      by (simp add: c np_percentile_def bind_exn_def l u)
    with l u show "\<exists>lower upper.
                percentile_of vals lo = Inr lower \<and> percentile_of vals hi = Inr upper
                \<and> conf_int L g ams distr dv arg runs lo hi = (Inr (lower, upper), g')"
      by blast
  }
  {
    assume h: "NaN \<in> set vals \<and> 0 \<le> lo \<and> lo \<le> 100 \<and> 0 \<le> hi \<and> hi \<le> 100"
    then show "conf_int L g ams distr dv arg runs lo hi = (Inr (NaN, NaN), g')"
      by (simp add: c np_percentile_def bind_exn_def percentile_of_nan)
  }
  {
    assume h: "runs = 0 \<and> 0 \<le> lo \<and> lo \<le> 100 \<and> 0 \<le> hi \<and> hi \<le> 100"
    with length have e: "vals = []" by simp
    from h have "conf_int L g ams distr dv arg runs lo hi
                   = (Inl (IndexError ''index -1 is out of bounds for axis 0 with size 0''), g')"
      unfolding c e by (simp add: np_percentile_def bind_exn_def percentile_of_def)
    then show "\<exists>msg. conf_int L g ams distr dv arg runs lo hi = (Inl (IndexError msg), g')"
      by (rule exI)
  }
next
  assume "soft_library L \<and> dv \<in> set data_variables \<and> distr \<in> set distrs"
  then show "\<exists>out. bootstrap_loop L g ams distr dv arg runs []
                 = (Inr out, advance g (runs * length ams))"
    by (intro bootstrap_loop_total) simp_all
qed

theorem conf_int_bootstrap_replicates_witness:
  "bootstrap_loop example_library (Rng rotating 0) [Fin 1, Fin 2, Fin 3] ''gev''
     ''return_value'' (Fin 10) 2 [] = (Inr [Fin (19 / 10), Fin (29 / 10)], Rng rotating 6)
   \<and> length [Fin (19 / 10), Fin (29 / 10)] = (2::nat)
   \<and> Rng rotating 6 = advance (Rng rotating 0) (2 * length [Fin 1, Fin 2, Fin 3])
   \<and> conf_int example_library (Rng rotating 0) [Fin 1, Fin 2, Fin 3] ''gev''
        ''return_value'' (Fin 10) 2 (5 / 2) (195 / 2)
       = (Inr (Fin (77 / 40), Fin (23 / 8)), Rng rotating 6)
   \<and> conf_int example_library (Rng stuck 0) [Fin 1, Fin 2, Fin 3] ''gev''
        ''return_value'' (Fin 10) 2 (5 / 2) (195 / 2)
       = (Inr (NaN, NaN), Rng stuck 6)
   \<and> (\<exists>msg. conf_int example_library (Rng rotating 0) [Fin 1, Fin 2, Fin 3] ''gev''
               ''return_value'' (Fin 10) 0 (5 / 2) (195 / 2)
               = (Inl (IndexError msg), Rng rotating 0))
   \<and> (\<exists>out. bootstrap_loop example_library (Rng stuck 0) [Fin 1, Fin 2, Fin 3] ''gev''
               ''return_period'' (Fin 10) 2 []
               = (Inr out, advance (Rng stuck 0) (2 * length [Fin 1, Fin 2, Fin 3])))"
proof -
  have dv: "''return_value'' \<in> set data_variables" "''return_period'' \<in> set data_variables"
    and d: "''gev'' \<in> set distrs"
    by (simp_all add: data_variables_def distrs_def)
  note a = conf_int_bootstrap_replicates [where L = example_library and g = "Rng rotating 0"
      and ams = "[Fin 1, Fin 2, Fin 3]" and distr = "''gev''" and dv = "''return_value''"
      and arg = "Fin 10" and runs = 2 and vals = "[Fin (19 / 10), Fin (29 / 10)]"
      and g' = "Rng rotating 6" and lo = "5 / 2" and hi = "195 / 2"]
  note b = conf_int_bootstrap_replicates [where L = example_library and g = "Rng stuck 0"
      and ams = "[Fin 1, Fin 2, Fin 3]" and distr = "''gev''" and dv = "''return_value''"
      and arg = "Fin 10" and runs = 2 and vals = "[NaN, NaN]"
      and g' = "Rng stuck 6" and lo = "5 / 2" and hi = "195 / 2"]
  note z = conf_int_bootstrap_replicates [where L = example_library and g = "Rng rotating 0"
      and ams = "[Fin 1, Fin 2, Fin 3]" and distr = "''gev''" and dv = "''return_value''"
      and arg = "Fin 10" and runs = 0 and vals = "[]"
      and g' = "Rng rotating 0" and lo = "5 / 2" and hi = "195 / 2"]
  note c = conf_int_bootstrap_replicates [where L = example_library and g = "Rng stuck 0"
      and ams = "[Fin 1, Fin 2, Fin 3]" and distr = "''gev''" and dv = "''return_period''"
      and arg = "Fin 10" and runs = 2, THEN conjunct2, THEN mp,
      OF conjI [OF example_soft_library conjI [OF dv(2) d]]]
  have r: "(0::nat) < 2 \<and> (0::real) \<le> 5 / 2 \<and> (5::real) / 2 \<le> 100 \<and> (0::real) \<le> 195 / 2
           \<and> (195::real) / 2 \<le> 100"
    by simp
  have n: "NaN \<in> set [NaN, NaN] \<and> (0::real) \<le> 5 / 2 \<and> (5::real) / 2 \<le> 100
           \<and> (0::real) \<le> 195 / 2 \<and> (195::real) / 2 \<le> 100"
    by simp
  have e: "(0::nat) = 0 \<and> (0::real) \<le> 5 / 2 \<and> (5::real) / 2 \<le> 100 \<and> (0::real) \<le> 195 / 2
           \<and> (195::real) / 2 \<le> 100"
    by simp
  have z0: "bootstrap_loop example_library (Rng rotating 0) [Fin 1, Fin 2, Fin 3] ''gev''
              ''return_value'' (Fin 10) 0 [] = (Inr [], Rng rotating 0)"
    by simp
  note a1 = a [THEN conjunct1, THEN mp, OF example_loop(1)]
  note b1 = b [THEN conjunct1, THEN mp, OF example_loop(2) [OF dv(1)]]
  note z1 = z [THEN conjunct1, THEN mp, OF z0]
  note tl = conjunct2 [THEN conjunct2, THEN conjunct2, THEN conjunct2]
  from a1 [THEN tl, THEN conjunct1, THEN mp, OF r] obtain lower upper where
    l: "percentile_of [Fin (19 / 10), Fin (29 / 10)] (5 / 2) = Inr lower" and
    u: "percentile_of [Fin (19 / 10), Fin (29 / 10)] (195 / 2) = Inr upper" and
    ci: "conf_int example_library (Rng rotating 0) [Fin 1, Fin 2, Fin 3] ''gev''
           ''return_value'' (Fin 10) 2 (5 / 2) (195 / 2) = (Inr (lower, upper), Rng rotating 6)"
    by (elim exE conjE)
  from l u have "lower = Fin (77 / 40)" "upper = Fin (23 / 8)"
    by (simp_all add: example_percentile_of)
  with ci have a2: "conf_int example_library (Rng rotating 0) [Fin 1, Fin 2, Fin 3] ''gev''
           ''return_value'' (Fin 10) 2 (5 / 2) (195 / 2)
           = (Inr (Fin (77 / 40), Fin (23 / 8)), Rng rotating 6)"
    by simp
  note b2 = b1 [THEN tl, THEN conjunct2, THEN conjunct1, THEN mp, OF n]
  note z2 = z1 [THEN tl, THEN conjunct2, THEN conjunct2, THEN mp, OF e]
  show ?thesis
    by (intro conjI)
       (fact example_loop(1) a1 [THEN conjunct1] a1 [THEN conjunct2, THEN conjunct1] a2 b2 z2 c)+
qed

text \<open>
  C6. With at least one run and the percentiles 2.5 and 97.5, \<open>conf_int\<close> returns a pair
  of bounds: with no NaN among the collected outcomes both are numbers and the lower one
  is at most the upper one; with a NaN among them, and so whenever the refit of some
  replicate fails, both bounds are NaN.
\<close>

theorem conf_int_bounds_ordered:
  assumes "bootstrap_loop L g ams distr dv arg runs [] = (Inr vals, g')" and "0 < runs"
  shows "\<exists>lower upper.
           conf_int L g ams distr dv arg runs (5 / 2) (195 / 2) = (Inr (lower, upper), g')
           \<and> (NaN \<notin> set vals \<longrightarrow> (\<exists>x y. lower = Fin x \<and> upper = Fin y \<and> x \<le> y))
           \<and> (NaN \<in> set vals \<longrightarrow> lower = NaN \<and> upper = NaN)
           \<and> ((\<exists>i<runs. \<exists>ld new_ams e.
                  get_lmom_distr distr = Inr ld
                  \<and> random_choice (advance g (i * length ams)) ams (length ams)
                      = (Inr new_ams, advance g (Suc i * length ams))
                  \<and> get_fitted_distr L new_ams distr ld = Inl e) \<longrightarrow>
                lower = NaN \<and> upper = NaN)"
proof -
  from bootstrap_loop_Inr [OF assms(1)] obtain vs where
    vs: "vals = [] @ vs" and len: "length vs = runs" and
    each: "\<forall>i<runs. bootstrap L (advance g (i * length ams)) ams distr dv arg
                      = (Inr (vs ! i), advance g (Suc i * length ams))"
    by (elim conjE exE)
  from vs len have length: "length vals = runs" by simp
  with assms(2) have ne: "vals \<noteq> []" by auto
  from percentile_of_nonempty [OF ne] obtain lower upper where
    l: "percentile_of vals (5 / 2) = Inr lower" and
    u: "percentile_of vals (195 / 2) = Inr upper"
    by metis
  have c: "conf_int L g ams distr dv arg runs (5 / 2) (195 / 2) = (Inr (lower, upper), g')"
    by (simp add: conf_int_def assms(1) np_percentile_def bind_exn_def l u)
  have ordered: "NaN \<notin> set vals \<longrightarrow> (\<exists>x y. lower = Fin x \<and> upper = Fin y \<and> x \<le> y)"
  proof
    assume "NaN \<notin> set vals"
    with ne have "\<exists>x y. percentile_of vals (5 / 2) = Inr (Fin x)
                      \<and> percentile_of vals (195 / 2) = Inr (Fin y) \<and> x \<le> y"
      by (intro percentile_of_mono) simp_all
    with l u show "\<exists>x y. lower = Fin x \<and> upper = Fin y \<and> x \<le> y"
      by simp
  qed
  have nan_bounds: "lower = NaN \<and> upper = NaN" if "NaN \<in> set vals"
    using percentile_of_nan [OF that, of "5 / 2"] percentile_of_nan [OF that, of "195 / 2"] l u
    by simp
  then have nan: "NaN \<in> set vals \<longrightarrow> lower = NaN \<and> upper = NaN"
    by blast
  have failed: "(\<exists>i<runs. \<exists>ld new_ams e.
                  get_lmom_distr distr = Inr ld
                  \<and> random_choice (advance g (i * length ams)) ams (length ams)
                      = (Inr new_ams, advance g (Suc i * length ams))
                  \<and> get_fitted_distr L new_ams distr ld = Inl e) \<longrightarrow>
                lower = NaN \<and> upper = NaN"
  proof
    assume "\<exists>i<runs. \<exists>ld new_ams e.
                  get_lmom_distr distr = Inr ld
                  \<and> random_choice (advance g (i * length ams)) ams (length ams)
                      = (Inr new_ams, advance g (Suc i * length ams))
                  \<and> get_fitted_distr L new_ams distr ld = Inl e"
    then obtain i ld new_ams e where i: "i < runs" and
      ld: "get_lmom_distr distr = Inr ld" and
      ch: "random_choice (advance g (i * length ams)) ams (length ams)
             = (Inr new_ams, advance g (Suc i * length ams))" and
      fit: "get_fitted_distr L new_ams distr ld = Inl e"
      by (elim exE conjE)
    from each i vs
    have "bootstrap L (advance g (i * length ams)) ams distr dv arg
            = (Inr (vals ! i), advance g (Suc i * length ams))"
      by simp
    from replicate_facts [OF this] obtain ld' new_ams' where
      ld': "get_lmom_distr distr = Inr ld'" and
      ch': "random_choice (advance g (i * length ams)) ams (length ams)
             = (Inr new_ams', advance g (Suc i * length ams))" and
      f: "(\<exists>e. get_fitted_distr L new_ams' distr ld' = Inl e) \<longrightarrow> vals ! i = NaN"
      by (elim exE conjE)
    from ld ld' have "ld' = ld" by simp
    moreover from ch ch' have "new_ams' = new_ams" by (simp del: random_choice.simps)
    ultimately have "vals ! i = NaN" using f fit by auto
    with i length have "NaN \<in> set vals" by (metis nth_mem)
    then show "lower = NaN \<and> upper = NaN" by (rule nan_bounds)
  qed
  show ?thesis
    by (intro exI [of _ lower] exI [of _ upper] conjI) (fact c ordered nan failed)+
qed

theorem conf_int_bounds_ordered_witness:
  "conf_int example_library (Rng rotating 0) [Fin 1, Fin 2, Fin 3] ''gev''
     ''return_value'' (Fin 10) 2 (5 / 2) (195 / 2)
     = (Inr (Fin (77 / 40), Fin (23 / 8)), Rng rotating 6)
   \<and> (77::real) / 40 \<le> 23 / 8
   \<and> conf_int example_library (Rng stuck 0) [Fin 1, Fin 2, Fin 3] ''gev''
     ''return_value'' (Fin 10) 2 (5 / 2) (195 / 2)
     = (Inr (NaN, NaN), Rng stuck 6)"
proof -
  have dv: "''return_value'' \<in> set data_variables"
    by (simp add: data_variables_def)
  from conf_int_bounds_ordered [OF example_loop(1) zero_less_numeral] obtain lower upper where
    c: "conf_int example_library (Rng rotating 0) [Fin 1, Fin 2, Fin 3] ''gev''
          ''return_value'' (Fin 10) 2 (5 / 2) (195 / 2) = (Inr (lower, upper), Rng rotating 6)"
    and o: "NaN \<notin> set [Fin (19 / 10), Fin (29 / 10)] \<longrightarrow>
              (\<exists>x y. lower = Fin x \<and> upper = Fin y \<and> x \<le> y)"
    by (elim exE conjE)
  from c have lu: "lower = Fin (77 / 40)" "upper = Fin (23 / 8)"
    by (simp_all add: example_conf_int)
  from o lu have le: "(77::real) / 40 \<le> 23 / 8" by simp
  from conf_int_bounds_ordered [OF example_loop(2) [OF dv, of "Fin 10"] zero_less_numeral] obtain lower' upper' where
    c': "conf_int example_library (Rng stuck 0) [Fin 1, Fin 2, Fin 3] ''gev''
          ''return_value'' (Fin 10) 2 (5 / 2) (195 / 2) = (Inr (lower', upper'), Rng stuck 6)"
    and n: "NaN \<in> set [NaN, NaN] \<longrightarrow> lower' = NaN \<and> upper' = NaN"
    by (elim exE conjE)
  from n have "lower' = NaN" "upper' = NaN" by simp_all
  with c' have s: "conf_int example_library (Rng stuck 0) [Fin 1, Fin 2, Fin 3] ''gev''
          ''return_value'' (Fin 10) 2 (5 / 2) (195 / 2) = (Inr (NaN, NaN), Rng stuck 6)"
    by simp
  from c lu have r: "conf_int example_library (Rng rotating 0) [Fin 1, Fin 2, Fin 3] ''gev''
     ''return_value'' (Fin 10) 2 (5 / 2) (195 / 2)
     = (Inr (Fin (77 / 40), Fin (23 / 8)), Rng rotating 6)"
    by simp
  show ?thesis
    by (intro conjI) (fact r le s)+
qed

section \<open>Return value and return period as inverses\<close>

text \<open>
  C8, as the source has it. The return value is rounded to 5 decimals before it is fed
  back, so the round trip is exact only up to what that rounding moves. Let \<open>y\<close> be the
  quantile at \<open>1 - 1 / T\<close> for a return period \<open>T > 0\<close> (2, 10, 50 and 100 among them),
  and let the distribution function take the value \<open>1 - 1 / T\<close> at \<open>y\<close> and move by at
  most \<open>K\<close> per unit within \<open>0.5e-5\<close> of \<open>y\<close>. If \<open>T * K < 200000\<close>, then the return value
  is within \<open>0.5e-5\<close> of \<open>y\<close>, and its return period is a number within
  \<open>T\<^sup>2 * K / (200000 - T * K) + 0.0005\<close> of \<open>T\<close>.
\<close>

theorem return_value_period_roundtrip:
  assumes T: "0 < T"
    and p: "ppf fd (Fin (1 - 1 / T)) = Inr (Fin y)"
    and K: "0 \<le> K" "T * K < 200000"
    and lip: "\<forall>x. \<bar>x - y\<bar> \<le> 1 / 200000 \<longrightarrow>
                (\<exists>q. cdf fd (Fin x) = Inr (Fin q) \<and> \<bar>q - (1 - 1 / T)\<bar> \<le> K * \<bar>x - y\<bar>)"
  shows "\<exists>v r. calculate_return (Some fd) ''return_value'' (Fin T) = Inr (Fin v)
           \<and> \<bar>v - y\<bar> \<le> 1 / 200000
           \<and> calculate_return (Some fd) ''return_period'' (Fin v) = Inr (Fin r)
           \<and> \<bar>r - T\<bar> \<le> T\<^sup>2 * K / (200000 - T * K) + 1 / 2000"
proof -
  from py_round_nearest [of y 5] obtain k :: int where
    k: "py_round (Fin y) 5 = Fin (of_int k / 10 ^ 5)" and kb: "\<bar>y * 10 ^ 5 - of_int k\<bar> \<le> 1 / 2"
    by (elim exE conjE)
  define v :: real where "v = of_int k / 10 ^ 5"
  have vk: "of_int k = v * 100000" unfolding v_def by simp
  from kb have "\<bar>y * 100000 - v * 100000\<bar> \<le> 1 / 2" unfolding vk by simp
  then have vy: "\<bar>v - y\<bar> \<le> 1 / 200000" by linarith
  from T p k have rv: "calculate_return (Some fd) ''return_value'' (Fin T) = Inr (Fin v)"
    unfolding v_def
    by (simp add: calculate_return_def try_except_def bind_exn_def call_ppf_def
        del: py_round.simps)
  from lip [rule_format, OF vy] obtain q where
    q: "cdf fd (Fin v) = Inr (Fin q)" and qb: "\<bar>q - (1 - 1 / T)\<bar> \<le> K * \<bar>v - y\<bar>"
    by (elim exE conjE)
  from K(1) vy have "K * \<bar>v - y\<bar> \<le> K * (1 / 200000)" by (rule mult_left_mono [rotated])
  with qb have qe: "\<bar>q - (1 - 1 / T)\<bar> \<le> K / 200000" by simp
  define a where "a = 1 - q"
  define D where "D = 200000 - T * K"
  define B where "B = T\<^sup>2 * K / D"
  have D: "0 < D" using K(2) unfolding D_def by simp
  have B: "0 \<le> B" using K(1) D unfolding B_def by simp
  from qe have ae: "\<bar>1 / T - a\<bar> \<le> K / 200000" unfolding a_def by linarith
  have low: "1 / T - K / 200000 = D / (200000 * T)"
    using T unfolding D_def by (simp add: field_simps)
  from ae have "1 / T - K / 200000 \<le> a" by linarith
  with low have alb: "D / (200000 * T) \<le> a" by simp
  from D T have "0 < D / (200000 * T)" by simp
  with alb have a: "0 < a" by linarith
  then have q1: "q \<noteq> 1" unfolding a_def by simp
  have "\<bar>1 - T * a\<bar> = T * \<bar>1 / T - a\<bar>"
  proof -
    from T have "1 - T * a = T * (1 / T - a)" by (simp add: field_simps)
    then show ?thesis using T by (simp add: abs_mult)
  qed
  also from ae T have "\<dots> \<le> T * (K / 200000)" by (simp add: mult_left_mono)
  finally have num: "\<bar>1 - T * a\<bar> \<le> T * K / 200000" by simp
  have "B * (D / (200000 * T)) = T * K / 200000"
    using D T unfolding B_def by (simp add: field_simps power2_eq_square)
  moreover from alb B have "B * (D / (200000 * T)) \<le> B * a" by (rule mult_left_mono)
  ultimately have "T * K / 200000 \<le> B * a" by simp
  with num have nb: "\<bar>1 - T * a\<bar> \<le> B * a" by linarith
  have "1 / a - T = (1 - T * a) / a" using a by (simp add: field_simps)
  then have "\<bar>1 / a - T\<bar> = \<bar>1 - T * a\<bar> / a" using a by (simp add: abs_divide)
  also from nb a have "\<dots> \<le> B" by (simp add: field_simps)
  finally have RT: "\<bar>1 / a - T\<bar> \<le> B" .
  have Ra: "- 1 / (q - 1) = 1 / a"
  proof -
    have "q - 1 = - a" unfolding a_def by simp
    then show ?thesis by simp
  qed
  from py_round_nearest [of "1 / a" 3] obtain j :: int where
    j: "py_round (Fin (1 / a)) 3 = Fin (of_int j / 10 ^ 3)"
    and jb: "\<bar>1 / a * 10 ^ 3 - of_int j\<bar> \<le> 1 / 2"
    by (elim exE conjE)
  define r :: real where "r = of_int j / 10 ^ 3"
  have rj: "of_int j = r * 1000" unfolding r_def by simp
  from jb have "\<bar>1 / a * 1000 - r * 1000\<bar> \<le> 1 / 2" unfolding rj by simp
  then have rR: "\<bar>r - 1 / a\<bar> \<le> 1 / 2000" by linarith
  from q q1 have "calculate_return (Some fd) ''return_period'' (Fin v)
                    = Inr (py_round (Fin (- 1 / (q - 1))) 3)"
    by (simp add: calculate_return_def try_except_def bind_exn_def call_cdf_def
        del: py_round.simps)
  with Ra j have rp: "calculate_return (Some fd) ''return_period'' (Fin v) = Inr (Fin r)"
    unfolding r_def by (simp del: py_round.simps)
  from RT rR have "\<bar>r - T\<bar> \<le> B + 1 / 2000" by linarith
  then have "\<bar>r - T\<bar> \<le> T\<^sup>2 * K / (200000 - T * K) + 1 / 2000"
    unfolding B_def D_def .
  with rv vy rp show ?thesis by (intro exI conjI)
qed

theorem return_value_period_roundtrip_witness:
  "\<exists>v r. calculate_return (Some (uniform_distr (1 / 3) 1)) ''return_value'' (Fin 10)
             = Inr (Fin v)
         \<and> \<bar>v - 37 / 30\<bar> \<le> 1 / 200000
         \<and> calculate_return (Some (uniform_distr (1 / 3) 1)) ''return_period'' (Fin v)
             = Inr (Fin r)
         \<and> \<bar>r - 10\<bar> \<le> 10\<^sup>2 * 1 / (200000 - 10 * 1) + 1 / 2000"
proof -
  have t: "(0::real) < 10" by simp
  have p: "ppf (uniform_distr (1 / 3) 1) (Fin (1 - 1 / 10)) = Inr (Fin (37 / 30))"
    by (simp add: uniform_distr_def)
  have k: "(0::real) \<le> 1" "(10::real) * 1 < 200000" by simp_all
  have lip: "\<forall>x. \<bar>x - 37 / 30\<bar> \<le> 1 / 200000 \<longrightarrow>
               (\<exists>q. cdf (uniform_distr (1 / 3) 1) (Fin x) = Inr (Fin q)
                    \<and> \<bar>q - (1 - 1 / 10)\<bar> \<le> 1 * \<bar>x - 37 / 30\<bar>)"
  proof (intro allI impI)
    fix x :: real assume x: "\<bar>x - 37 / 30\<bar> \<le> 1 / 200000"
    then have "0 \<le> x - 1 / 3" "x - 1 / 3 \<le> 1" by linarith+
    then have "cdf (uniform_distr (1 / 3) 1) (Fin x) = Inr (Fin (x - 1 / 3))"
      by (simp add: uniform_distr_def)
    moreover have "\<bar>(x - 1 / 3) - (1 - 1 / 10)\<bar> \<le> 1 * \<bar>x - 37 / 30\<bar>" by simp
    ultimately show "\<exists>q. cdf (uniform_distr (1 / 3) 1) (Fin x) = Inr (Fin q)
                    \<and> \<bar>q - (1 - 1 / 10)\<bar> \<le> 1 * \<bar>x - 37 / 30\<bar>"
      by (intro exI conjI)
  qed
  show ?thesis
    by (rule return_value_period_roundtrip [OF t p k lip])
qed

text \<open>
  C8, as stated, fails where the rounding to 5 decimals is coarse against the scale of
  the distribution. For \<open>genpareto(c=-1, loc=0, scale=1e-6)\<close> and \<open>T = 2\<close> the return
  value \<open>5e-7\<close> is rounded to 0, and the return period of 0 is 1, although the
  distribution function takes the quantile \<open>5e-7\<close> back to \<open>1 - 1 / 2\<close>. Here the
  distribution function moves by \<open>K = 1e6\<close> per unit, and \<open>T * K\<close> is not below 200000.
\<close>

theorem roundtrip_lost_in_rounding:
  "calculate_return (Some (uniform_distr 0 (1 / 1000000))) ''return_value'' (Fin 2)
     = Inr (Fin 0)
   \<and> calculate_return (Some (uniform_distr 0 (1 / 1000000))) ''return_period'' (Fin 0)
     = Inr (Fin 1)
   \<and> ppf (uniform_distr 0 (1 / 1000000)) (Fin (1 - 1 / 2)) = Inr (Fin (1 / 2000000))
   \<and> cdf (uniform_distr 0 (1 / 1000000)) (Fin (1 / 2000000)) = Inr (Fin (1 - 1 / 2))"
proof (intro conjI)
  have "round_half_even (1 / 20) = 0"
    by (simp add: round_half_even_def)
  then show "calculate_return (Some (uniform_distr 0 (1 / 1000000))) ''return_value'' (Fin 2)
     = Inr (Fin 0)"
    by (simp add: calculate_return_def try_except_def bind_exn_def call_ppf_def
        uniform_distr_def)
  show "calculate_return (Some (uniform_distr 0 (1 / 1000000))) ''return_period'' (Fin 0)
     = Inr (Fin 1)"
    using round_half_even_of_int [of 1000]
    by (simp add: calculate_return_def try_except_def bind_exn_def call_cdf_def
        uniform_distr_def)
  show "ppf (uniform_distr 0 (1 / 1000000)) (Fin (1 - 1 / 2)) = Inr (Fin (1 / 2000000))"
    by (simp add: uniform_distr_def)
  show "cdf (uniform_distr 0 (1 / 1000000)) (Fin (1 / 2000000)) = Inr (Fin (1 - 1 / 2))"
    by (simp add: uniform_distr_def)
qed

end
